theory Spec2Isabelle
  imports Complex_Main "HOL-Library.Word" "HOL-Library.Signed_Division" "HOL-Library.Log_Nat"
    "HOL-Library.Char_ord" "HOL-Library.List_Lexorder" "HOL-Library.AList"
begin

section \<open>Go values used by the program\<close>

text \<open>
  The program is \<^verbatim>\<open>main.go\<close> of get-node-start-block. It comes in two variants
  with identical search functions: the original one and a hardened one (retrying the
  final write, tolerating a missing .env file and adding the farcaster entry).

  \<^item> Go's \<^verbatim>\<open>int64\<close> is a 64-bit word read as two's complement; \<^verbatim>\<open>+\<close> and
    \<^verbatim>\<open>-\<close> wrap around, \<^verbatim>\<open>/\<close> truncates towards zero, comparisons are signed.
  \<^item> Go's \<^verbatim>\<open>*big.Int\<close> is an unbounded integer, or nil.
  \<^item> A Go \<^verbatim>\<open>error\<close> is represented by its rendering under \<^verbatim>\<open>%v\<close>.
  \<^item> A function returning \<^verbatim>\<open>(T, error)\<close> yields \<open>Ok\<close> or \<open>Err\<close>; a run-time panic
    (nil dereference, assignment to an entry of a nil map) is the value \<open>Panic\<close>.
\<close>

type_synonym int64 = "64 word"

datatype 'a result = Ok 'a | Err string | Panic

text \<open>The read calls issued to a ledger client, in the order they are made.\<close>

datatype call = HeadFetch | BlockFetch int

definition quo64 :: "int64 \<Rightarrow> int64 \<Rightarrow> int64" where
  \<comment> \<open>\<^verbatim>\<open>a / b\<close> on int64: the quotient truncated towards zero\<close>
  "quo64 a b = word_of_int (sint a sdiv sint b)"

definition Int64 :: "int \<Rightarrow> int64" where
  \<comment> \<open>\<^verbatim>\<open>(*big.Int).Int64\<close> on a non-nil receiver: the low 64 bits, with the sign applied\<close>
  "Int64 x = word_of_int x"

subsection \<open>Decimal rendering (\<^verbatim>\<open>%d\<close>, \<^verbatim>\<open>(*big.Int).String\<close>)\<close>

definition digit_char :: "nat \<Rightarrow> char" where
  "digit_char d = ''0123456789'' ! d"

function decimal_nat :: "nat \<Rightarrow> string" where
  "decimal_nat n =
     (if n < 10 then [digit_char n] else decimal_nat (n div 10) @ [digit_char (n mod 10)])"
  by pat_completeness auto
termination
  by (relation "measure (\<lambda>n. n)") auto

declare decimal_nat.simps [simp del]

definition decimal :: "int \<Rightarrow> string" where
  "decimal i = (if i < 0 then CHR ''-'' # decimal_nat (nat (- i)) else decimal_nat (nat i))"

subsection \<open>\<^verbatim>\<open>hexutil.DecodeBig\<close> of go-ethereum\<close>

text \<open>
  The library function decodes a 0x-prefixed hexadecimal quantity of at most 256 bits.
  On failure it returns a nil \<^verbatim>\<open>*big.Int\<close> together with one of the errors below.
\<close>

datatype hexutil_error =
  ErrEmptyString | ErrMissingPrefix | ErrEmptyNumber | ErrLeadingZero | ErrSyntax | ErrBig256Range

fun has0xPrefix :: "string \<Rightarrow> bool" where
  "has0xPrefix (c0 # c1 # _) = (c0 = CHR ''0'' \<and> (c1 = CHR ''x'' \<or> c1 = CHR ''X''))"
| "has0xPrefix _ = False"

definition checkNumber :: "string \<Rightarrow> hexutil_error + string" where
  "checkNumber input =
     (if length input = 0 then Inl ErrEmptyString
      else if \<not> has0xPrefix input then Inl ErrMissingPrefix
      else let raw = drop 2 input in
        if length raw = 0 then Inl ErrEmptyNumber
        else if length raw > 1 \<and> hd raw = CHR ''0'' then Inl ErrLeadingZero
        else Inr raw)"

definition decodeNibble :: "char \<Rightarrow> nat option" where
  "decodeNibble c =
     (let n = (of_char c :: nat) in
      if 48 \<le> n \<and> n \<le> 57 then Some (n - 48)
      else if 65 \<le> n \<and> n \<le> 70 then Some (n - 65 + 10)
      else if 97 \<le> n \<and> n \<le> 102 then Some (n - 97 + 10)
      else None)"

fun decodeNibbles :: "nat \<Rightarrow> string \<Rightarrow> hexutil_error + int" where
  "decodeNibbles acc [] = Inr (int acc)"
| "decodeNibbles acc (c # cs) =
     (case decodeNibble c of
        None \<Rightarrow> Inl ErrSyntax
      | Some nib \<Rightarrow> decodeNibbles (acc * 16 + nib) cs)"

definition DecodeBig :: "string \<Rightarrow> hexutil_error + int" where
  "DecodeBig input =
     (case checkNumber input of
        Inl e \<Rightarrow> Inl e
      | Inr raw \<Rightarrow> if length raw > 64 then Inl ErrBig256Range else decodeNibbles 0 raw)"

section \<open>The two searches\<close>

subsection \<open>\<^verbatim>\<open>findClosestBlockRPC\<close>\<close>

text \<open>
  What the search sees of an \<^verbatim>\<open>rpc.Client\<close>: the outcome of \<^verbatim>\<open>eth_blockNumber\<close>
  (an error, or the decoded \<^verbatim>\<open>hexutil.Big\<close>), the outcome of
  \<^verbatim>\<open>eth_getBlockByNumber\<close> at a height (an error, or the \<^verbatim>\<open>timestamp\<close> field of
  the answer, which is the empty string when the answer is \<^verbatim>\<open>null\<close> or has no such
  field), and the outcome of \<^verbatim>\<open>eth_getBlockByNumber\<close> at \<^verbatim>\<open>"latest"\<close>, used by
  \<^verbatim>\<open>main\<close> as a connectivity check (\<open>Some e\<close> is the error).
\<close>

record rpc_client =
  eth_blockNumber :: "string + int"
  eth_getBlockByNumber :: "int \<Rightarrow> string + string"
  eth_getBlockLatest :: "string option"

function rpc_loop ::
  "(int \<Rightarrow> string + string) \<Rightarrow> int64 \<Rightarrow> int \<Rightarrow> int \<Rightarrow> call list \<Rightarrow> int result \<times> call list" where
  "rpc_loop getBlock targetTimestamp low high tr =
     (if low \<le> high then
        (let mid = (low + high) div 2; tr' = tr @ [BlockFetch mid] in
         case getBlock mid of
           Inl e \<Rightarrow> (Err (''error getting block '' @ decimal mid @ '': '' @ e), tr')
         | Inr timestamp \<Rightarrow>
            (case DecodeBig timestamp of
               Inl _ \<Rightarrow> (Panic, tr')
             | Inr blockTimestamp \<Rightarrow>
                 if Int64 blockTimestamp = targetTimestamp then (Ok mid, tr')
                 else if Int64 blockTimestamp <s targetTimestamp
                   then rpc_loop getBlock targetTimestamp (mid + 1) high tr'
                 else rpc_loop getBlock targetTimestamp low (mid - 1) tr'))
      else (Ok low, tr))"
  by pat_completeness auto
termination
  by (relation "measure (\<lambda>(getBlock, targetTimestamp, low, high, tr). nat (high + 1 - low))") auto

declare rpc_loop.simps [simp del]

definition findClosestBlockRPC :: "rpc_client \<Rightarrow> int64 \<Rightarrow> int result \<times> call list" where
  "findClosestBlockRPC rpcClient targetTimestamp =
     (case eth_blockNumber rpcClient of
        Inl e \<Rightarrow> (Err (''error getting latest block number: '' @ e), [HeadFetch])
      | Inr high \<Rightarrow> rpc_loop (eth_getBlockByNumber rpcClient) targetTimestamp 1 high [HeadFetch])"

subsection \<open>\<^verbatim>\<open>findClosestBlockArweave\<close>\<close>

text \<open>
  What the search sees of an \<^verbatim>\<open>arweave.Client\<close>: the outcome of
  \<^verbatim>\<open>GetBlockHeight\<close> and, per height, the outcome of \<^verbatim>\<open>GetBlockByHeight\<close>:
  an error, or a \<^verbatim>\<open>*Block\<close>, which is nil (\<open>None\<close>) when the gateway answers with the
  body \<^verbatim>\<open>null\<close>, or else carries the \<^verbatim>\<open>Timestamp\<close> field. Reading the field of a nil
  block panics. All values are int64, so \<^verbatim>\<open>low + high\<close> can wrap around and the loop
  need not end: not returning is \<open>None\<close>.
\<close>

record arweave_client =
  GetBlockHeight :: "string + int64"
  GetBlockByHeight :: "int64 \<Rightarrow> string + int64 option"

partial_function (option) arweave_loop ::
  "(int64 \<Rightarrow> string + int64 option) \<Rightarrow> int64 \<Rightarrow> int64 \<Rightarrow> int64 \<Rightarrow> call list
     \<Rightarrow> (int64 result \<times> call list) option" where
  "arweave_loop getBlock targetTimestamp low high tr =
     (if low \<le>s high then
        (let mid = quo64 (low + high) 2; tr' = tr @ [BlockFetch (sint mid)] in
         case getBlock mid of
           Inl e \<Rightarrow> Some (Err (''error getting block '' @ decimal (sint mid) @ '': '' @ e), tr')
         | Inr None \<Rightarrow> Some (Panic, tr')
         | Inr (Some timestamp) \<Rightarrow>
             if timestamp = targetTimestamp then Some (Ok mid, tr')
             else if timestamp <s targetTimestamp
               then arweave_loop getBlock targetTimestamp (mid + 1) high tr'
             else arweave_loop getBlock targetTimestamp low (mid - 1) tr')
      else Some (Ok low, tr))"

definition findClosestBlockArweave ::
  "arweave_client \<Rightarrow> int64 \<Rightarrow> (int64 result \<times> call list) option" where
  "findClosestBlockArweave client targetTimestamp =
     (case GetBlockHeight client of
        Inl e \<Rightarrow> Some (Err (''error getting latest block height: '' @ e), [HeadFetch])
      | Inr high \<Rightarrow> arweave_loop (GetBlockByHeight client) targetTimestamp 1 high [HeadFetch])"

text \<open>
  The states in which a run of \<^verbatim>\<open>findClosestBlockArweave\<close> on a head height
  \<open>high0\<close> stands at the loop condition, with the calls made so far: the state after the
  head fetch, and the state after a probe that was answered with a timestamp other than
  the target, which moves \<^verbatim>\<open>low\<close> or \<^verbatim>\<open>high\<close>.
\<close>

inductive arweave_reaches ::
  "(int64 \<Rightarrow> string + int64 option) \<Rightarrow> int64 \<Rightarrow> int64 \<Rightarrow> int64 \<Rightarrow> int64 \<Rightarrow> call list \<Rightarrow> bool"
  for getBlock targetTimestamp high0 where
  start: "arweave_reaches getBlock targetTimestamp high0 1 high0 [HeadFetch]"
| right:
    "arweave_reaches getBlock targetTimestamp high0 low high tr \<Longrightarrow> low \<le>s high \<Longrightarrow>
     getBlock (quo64 (low + high) 2) = Inr (Some timestamp) \<Longrightarrow>
     timestamp \<noteq> targetTimestamp \<Longrightarrow> timestamp <s targetTimestamp \<Longrightarrow>
     arweave_reaches getBlock targetTimestamp high0 (quo64 (low + high) 2 + 1) high
       (tr @ [BlockFetch (sint (quo64 (low + high) 2))])"
| left:
    "arweave_reaches getBlock targetTimestamp high0 low high tr \<Longrightarrow> low \<le>s high \<Longrightarrow>
     getBlock (quo64 (low + high) 2) = Inr (Some timestamp) \<Longrightarrow>
     timestamp \<noteq> targetTimestamp \<Longrightarrow> \<not> timestamp <s targetTimestamp \<Longrightarrow>
     arweave_reaches getBlock targetTimestamp high0 low (quo64 (low + high) 2 - 1)
       (tr @ [BlockFetch (sint (quo64 (low + high) 2))])"

code_pred arweave_reaches .


section \<open>The orchestration in \<^verbatim>\<open>main\<close>\<close>

subsection \<open>The config document\<close>

text \<open>
  A file holds a JSON text, or something that is no JSON text, given by the syntax error
  \<^verbatim>\<open>encoding/json\<close> reports for it. An object keeps its members in the order of the
  text, duplicates included. A number literal without fraction and exponent is \<open>JInt\<close>;
  any other number literal is \<open>JFloat\<close> with its text. Strings are sequences of bytes
  (UTF-8).
\<close>

datatype json =
  JNull | JBool bool | JInt int | JFloat string | JString string
  | JArray "json list" | JObject "(string \<times> json) list"

datatype content = Document json | NotJSON string

type_synonym fs = "string \<rightharpoonup> content"

text \<open>
  \<^verbatim>\<open>Config\<close> has the single field \<^verbatim>\<open>NetworkStartBlock map[string]int64\<close>. The map
  is an association list with distinct keys; \<open>None\<close> is the nil map.
\<close>

record Config =
  NetworkStartBlock :: "(string \<times> int64) list option"

definition ascii_lower :: "char \<Rightarrow> char" where
  "ascii_lower c =
     (case map_of (zip ''ABCDEFGHIJKLMNOPQRSTUVWXYZ'' ''abcdefghijklmnopqrstuvwxyz'') c of
        Some l \<Rightarrow> l
      | None \<Rightarrow> c)"

text \<open>
  \<^verbatim>\<open>encoding/json\<close> selects a struct field by its tag, exactly or else under Unicode
  simple case folding. Two letters of the tag have a third member in their folding class:
  the long s (U+017F, bytes C5 BF) folds with \<^verbatim>\<open>s\<close> and the Kelvin sign (U+212A, bytes
  E2 84 AA) folds with \<^verbatim>\<open>k\<close>. Every other byte outside ASCII stays as it is and so
  matches no letter of the tag. The library folds to upper case; folding both sides to
  lower case gives the same comparison.
\<close>

fun foldName :: "string \<Rightarrow> string" where
  "foldName [] = []"
| "foldName [c] = [ascii_lower c]"
| "foldName [c0, c1] =
     (if c0 = CHR 0xC5 \<and> c1 = CHR 0xBF then ''s'' else [ascii_lower c0, ascii_lower c1])"
| "foldName (c0 # c1 # c2 # cs) =
     (if c0 = CHR 0xC5 \<and> c1 = CHR 0xBF then CHR ''s'' # foldName (c2 # cs)
      else if c0 = CHR 0xE2 \<and> c1 = CHR 0x84 \<and> c2 = CHR 0xAA then CHR ''k'' # foldName cs
      else ascii_lower c0 # foldName (c1 # c2 # cs))"

definition field_matches :: "string \<Rightarrow> bool" where
  "field_matches key = (foldName key = ''network_start_block'')"

text \<open>
  How an \<^verbatim>\<open>UnmarshalTypeError\<close> names the offending value, and its rendering for a
  value met inside the field \<^verbatim>\<open>network_start_block\<close> and for the top-level value.
\<close>

definition value_kind :: "json \<Rightarrow> string" where
  "value_kind v =
     (case v of
        JNull \<Rightarrow> ''null''
      | JBool _ \<Rightarrow> ''bool''
      | JInt i \<Rightarrow> ''number '' @ decimal i
      | JFloat literal \<Rightarrow> ''number '' @ literal
      | JString _ \<Rightarrow> ''string''
      | JArray _ \<Rightarrow> ''array''
      | JObject _ \<Rightarrow> ''object'')"

definition field_type_error :: "json \<Rightarrow> string \<Rightarrow> string" where
  "field_type_error v ty =
     ''json: cannot unmarshal '' @ value_kind v @
     '' into Go struct field Config.network_start_block of type '' @ ty"

definition value_type_error :: "json \<Rightarrow> string \<Rightarrow> string" where
  "value_type_error v ty =
     ''json: cannot unmarshal '' @ value_kind v @ '' into Go value of type '' @ ty"

text \<open>
  \<^verbatim>\<open>json.Unmarshal\<close> into a \<^verbatim>\<open>map[string]int64\<close>: members are stored in order, a later
  duplicate overwrites; \<^verbatim>\<open>null\<close> stores the zero value; anything that is no integer
  literal in the int64 range is an error. The decoder keeps the first such error and
  returns it at the end; the caller uses nothing else of a failed decoding.
\<close>

fun decode_entries ::
  "(string \<times> json) list \<Rightarrow> (string \<times> int64) list \<Rightarrow> string + (string \<times> int64) list" where
  "decode_entries [] m = Inr m"
| "decode_entries ((k, v) # rest) m =
     (case v of
        JInt i \<Rightarrow>
          if - (2 ^ 63) \<le> i \<and> i < 2 ^ 63 then decode_entries rest (AList.update k (word_of_int i) m)
          else Inl (field_type_error v ''int64'')
      | JNull \<Rightarrow> decode_entries rest (AList.update k 0 m)
      | _ \<Rightarrow> Inl (field_type_error v ''int64''))"

text \<open>
  \<^verbatim>\<open>json.Unmarshal\<close> into \<^verbatim>\<open>Config\<close>: members whose key does not select the field are
  skipped; \<^verbatim>\<open>null\<close> sets the map to nil; an object is decoded into the map, which is
  created when it is nil.
\<close>

fun decode_fields ::
  "(string \<times> json) list \<Rightarrow> (string \<times> int64) list option
     \<Rightarrow> string + (string \<times> int64) list option" where
  "decode_fields [] m = Inr m"
| "decode_fields ((k, v) # rest) m =
     (if field_matches k then
        (case v of
           JNull \<Rightarrow> decode_fields rest None
         | JObject entries \<Rightarrow>
             (case decode_entries entries (case m of None \<Rightarrow> [] | Some al \<Rightarrow> al) of
                Inl e \<Rightarrow> Inl e
              | Inr al \<Rightarrow> decode_fields rest (Some al))
         | _ \<Rightarrow> Inl (field_type_error v ''map[string]int64''))
      else decode_fields rest m)"

definition Unmarshal :: "content \<Rightarrow> string + Config" where
  "Unmarshal data =
     (case data of
        NotJSON syntaxError \<Rightarrow> Inl syntaxError
      | Document JNull \<Rightarrow> Inr \<lparr>NetworkStartBlock = None\<rparr>
      | Document (JObject members) \<Rightarrow>
          (case decode_fields members None of
             Inl e \<Rightarrow> Inl e
           | Inr m \<Rightarrow> Inr \<lparr>NetworkStartBlock = m\<rparr>)
      | Document v \<Rightarrow> Inl (value_type_error v ''main.Config''))"

definition MarshalIndent :: "Config \<Rightarrow> content" where
  \<comment> \<open>the struct has one field; map keys are written in sorted order, a nil map as \<^verbatim>\<open>null\<close>\<close>
  "MarshalIndent config =
     Document (JObject [(''network_start_block'',
       (case NetworkStartBlock config of
          None \<Rightarrow> JNull
        | Some al \<Rightarrow> JObject (map (\<lambda>(k, v). (k, JInt (sint v))) (sort_key fst al))))])"

definition assign :: "Config \<Rightarrow> string \<Rightarrow> int64 \<Rightarrow> Config option" where
  \<comment> \<open>\<^verbatim>\<open>config.NetworkStartBlock[k] = v\<close>; on a nil map Go panics, which is \<open>None\<close>\<close>
  "assign config k v =
     (case NetworkStartBlock config of
        None \<Rightarrow> None
      | Some al \<Rightarrow> Some (config\<lparr>NetworkStartBlock := Some (AList.update k v al)\<rparr>))"

subsection \<open>The environment and the program state\<close>

datatype write_outcome = Written | OpenFailed string | WriteFailed string content

text \<open>
  Everything outside the process: the outcome of \<^verbatim>\<open>godotenv.Load\<close>, the environment
  variables, what dialling an endpoint gives, what \<^verbatim>\<open>arweave.NewClient\<close> gives, whether
  \<^verbatim>\<open>os.Rename\<close> fails, and the outcome of the i-th call of \<^verbatim>\<open>os.WriteFile\<close>
  (a failed write may leave a partly written file).
\<close>

record world =
  dotenv_Load :: "string option"
  Getenv :: "string \<Rightarrow> string"
  rpc_Dial :: "string \<Rightarrow> string + rpc_client"
  arweave_NewClient :: "string \<Rightarrow> string + arweave_client"
  rename_error :: "string option"
  write_result :: "nat \<Rightarrow> write_outcome"

text \<open>
  The state of a run: the config in memory, the lines given to \<^verbatim>\<open>log.Printf\<close> (without
  the time stamp and the final newline) and the files on disk. Output to stdout is not kept.
\<close>

record prog_state =
  config :: Config
  logged :: "string list"
  disk :: fs

datatype exit = Exit0 | Fatal string | Panicked

record Network =
  Name :: string
  URL :: string
  Type :: string

definition targetTimestamp :: int64 where
  "targetTimestamp = 1717200000"

definition ReadFile :: "fs \<Rightarrow> string \<Rightarrow> string + content" where
  "ReadFile d name =
     (case d name of
        None \<Rightarrow> Inl (''open '' @ name @ '': no such file or directory'')
      | Some c \<Rightarrow> Inr c)"

definition Rename :: "world \<Rightarrow> fs \<Rightarrow> string \<Rightarrow> string \<Rightarrow> string option \<times> fs" where
  "Rename w d old new =
     (case rename_error w of
        Some e \<Rightarrow> (Some e, d)
      | None \<Rightarrow>
         (case d old of
            None \<Rightarrow> (Some (''rename '' @ old @ '' '' @ new @ '': no such file or directory''), d)
          | Some c \<Rightarrow> (None, d(old := None, new := Some c))))"

definition WriteFile :: "world \<Rightarrow> nat \<Rightarrow> fs \<Rightarrow> string \<Rightarrow> content \<Rightarrow> string option \<times> fs" where
  "WriteFile w i d name data =
     (case write_result w i of
        Written \<Rightarrow> (None, d(name := Some data))
      | OpenFailed e \<Rightarrow> (Some e, d)
      | WriteFailed e partial \<Rightarrow> (Some e, d(name := Some partial)))"

subsection \<open>One network\<close>

datatype step = Skipped string | Found int64 | Crash

definition process_ethereum :: "world \<Rightarrow> int64 \<Rightarrow> Network \<Rightarrow> step" where
  "process_ethereum w target network =
     (case rpc_Dial w (URL network) of
        Inl e \<Rightarrow> Skipped (''Error connecting to '' @ Name network @ '': '' @ e)
      | Inr rpcClient \<Rightarrow>
         (case eth_getBlockLatest rpcClient of
            Some e \<Rightarrow> Skipped (''Error getting latest block from '' @ Name network @ '': '' @ e)
          | None \<Rightarrow>
             (case fst (findClosestBlockRPC rpcClient target) of
                Err e \<Rightarrow> Skipped (''Error finding closest block for '' @ Name network @ '': '' @ e)
              | Panic \<Rightarrow> Crash
              | Ok closestBlock \<Rightarrow>
                 (case eth_getBlockByNumber rpcClient closestBlock of
                    Inl e \<Rightarrow>
                      Skipped (''Error getting block details for '' @ Name network @ '': '' @ e)
                  | Inr timestamp \<Rightarrow>
                     (case DecodeBig timestamp of
                        Inl _ \<Rightarrow> Crash
                      | Inr blockTimestamp \<Rightarrow> Found (Int64 closestBlock))))))"

definition process_arweave :: "world \<Rightarrow> int64 \<Rightarrow> Network \<Rightarrow> step option" where
  "process_arweave w target network =
     (case arweave_NewClient w (URL network) of
        Inl e \<Rightarrow>
          Some (Skipped (''Error creating Arweave client for '' @ Name network @ '': '' @ e))
      | Inr arweaveClient \<Rightarrow>
         (case findClosestBlockArweave arweaveClient target of
            None \<Rightarrow> None
          | Some (Err e, _) \<Rightarrow>
              Some (Skipped (''Error finding closest block for '' @ Name network @ '': '' @ e))
          | Some (Panic, _) \<Rightarrow> Some Crash
          | Some (Ok closestBlock, _) \<Rightarrow>
             (case GetBlockByHeight arweaveClient closestBlock of
                Inl e \<Rightarrow>
                  Some (Skipped (''Error getting block details for '' @ Name network @ '': '' @ e))
              | Inr None \<Rightarrow> Some Crash
              | Inr (Some _) \<Rightarrow> Some (Found closestBlock))))"

definition process_network :: "world \<Rightarrow> int64 \<Rightarrow> Network \<Rightarrow> step option" where
  "process_network w target network =
     (if Type network = ''ethereum'' then Some (process_ethereum w target network)
      else if Type network = ''arweave'' then process_arweave w target network
      else Some (Found 0))"

subsection \<open>The loop over the networks\<close>

fun run_networks ::
  "world \<Rightarrow> int64 \<Rightarrow> Network list \<Rightarrow> prog_state \<Rightarrow> (exit \<times> prog_state) option" where
  "run_networks w target [] s = Some (Exit0, s)"
| "run_networks w target (network # rest) s =
     (case process_network w target network of
        None \<Rightarrow> None
      | Some (Skipped msg) \<Rightarrow> run_networks w target rest (s\<lparr>logged := logged s @ [msg]\<rparr>)
      | Some Crash \<Rightarrow> Some (Panicked, s)
      | Some (Found closestBlockInt64) \<Rightarrow>
         (case assign (config s) (Name network) closestBlockInt64 of
            None \<Rightarrow> Some (Panicked, s)
          | Some c \<Rightarrow> run_networks w target rest (s\<lparr>config := c\<rparr>)))"

definition networks_original :: "world \<Rightarrow> Network list" where
  "networks_original w =
    [\<lparr>Name = ''Ethereum'', URL = Getenv w ''ETHEREUM_RPC_URL'', Type = ''ethereum''\<rparr>,
     \<lparr>Name = ''Polygon'', URL = Getenv w ''POLYGON_RPC_URL'', Type = ''ethereum''\<rparr>,
     \<lparr>Name = ''Avalanche'', URL = Getenv w ''AVALANCHE_RPC_URL'', Type = ''ethereum''\<rparr>,
     \<lparr>Name = ''Optimism'', URL = Getenv w ''OPTIMISM_RPC_URL'', Type = ''ethereum''\<rparr>,
     \<lparr>Name = ''Arbitrum'', URL = Getenv w ''ARBITRUM_RPC_URL'', Type = ''ethereum''\<rparr>,
     \<lparr>Name = ''Gnosis'', URL = Getenv w ''GNOSIS_RPC_URL'', Type = ''ethereum''\<rparr>,
     \<lparr>Name = ''Linea'', URL = Getenv w ''LINEA_RPC_URL'', Type = ''ethereum''\<rparr>,
     \<lparr>Name = ''Binance Smart Chain'', URL = Getenv w ''BSC_RPC_URL'', Type = ''ethereum''\<rparr>,
     \<lparr>Name = ''Base'', URL = Getenv w ''BASE_RPC_URL'', Type = ''ethereum''\<rparr>,
     \<lparr>Name = ''Crossbell'', URL = Getenv w ''CROSSBELL_RPC_URL'', Type = ''ethereum''\<rparr>,
     \<lparr>Name = ''VSL'', URL = Getenv w ''VSL_RPC_URL'', Type = ''ethereum''\<rparr>,
     \<lparr>Name = ''X-Layer'', URL = Getenv w ''XLAYER_RPC_URL'', Type = ''ethereum''\<rparr>,
     \<lparr>Name = ''Arweave'', URL = Getenv w ''ARWEAVE_RPC_URL'', Type = ''arweave''\<rparr>]"

definition networks_hardened :: "world \<Rightarrow> Network list" where
  "networks_hardened w =
    [\<lparr>Name = ''ethereum'', URL = Getenv w ''ETHEREUM_RPC_URL'', Type = ''ethereum''\<rparr>,
     \<lparr>Name = ''polygon'', URL = Getenv w ''POLYGON_RPC_URL'', Type = ''ethereum''\<rparr>,
     \<lparr>Name = ''avax'', URL = Getenv w ''AVALANCHE_RPC_URL'', Type = ''ethereum''\<rparr>,
     \<lparr>Name = ''optimism'', URL = Getenv w ''OPTIMISM_RPC_URL'', Type = ''ethereum''\<rparr>,
     \<lparr>Name = ''arbitrum'', URL = Getenv w ''ARBITRUM_RPC_URL'', Type = ''ethereum''\<rparr>,
     \<lparr>Name = ''gnosis'', URL = Getenv w ''GNOSIS_RPC_URL'', Type = ''ethereum''\<rparr>,
     \<lparr>Name = ''linea'', URL = Getenv w ''LINEA_RPC_URL'', Type = ''ethereum''\<rparr>,
     \<lparr>Name = ''binance-smart-chain'', URL = Getenv w ''BSC_RPC_URL'', Type = ''ethereum''\<rparr>,
     \<lparr>Name = ''base'', URL = Getenv w ''BASE_RPC_URL'', Type = ''ethereum''\<rparr>,
     \<lparr>Name = ''crossbell'', URL = Getenv w ''CROSSBELL_RPC_URL'', Type = ''ethereum''\<rparr>,
     \<lparr>Name = ''vsl'', URL = Getenv w ''VSL_RPC_URL'', Type = ''ethereum''\<rparr>,
     \<lparr>Name = ''x-layer'', URL = Getenv w ''XLAYER_RPC_URL'', Type = ''ethereum''\<rparr>,
     \<lparr>Name = ''arweave'', URL = Getenv w ''ARWEAVE_RPC_URL'', Type = ''arweave''\<rparr>]"

subsection \<open>\<^verbatim>\<open>main\<close>, original variant\<close>

text \<open>
  The steps before the loop: load .env, read and parse config.json, rename it to
  config.json.old. Each failure is a \<^verbatim>\<open>log.Fatalf\<close>.
\<close>

definition startup_original :: "world \<Rightarrow> fs \<Rightarrow> string + prog_state" where
  "startup_original w d =
     (case dotenv_Load w of
        Some e \<Rightarrow> Inl (''Error loading .env file: '' @ e)
      | None \<Rightarrow>
         (case ReadFile d ''config.json'' of
            Inl e \<Rightarrow> Inl (''Error reading config file: '' @ e)
          | Inr configFile \<Rightarrow>
             (case Unmarshal configFile of
                Inl e \<Rightarrow> Inl (''Error parsing config file: '' @ e)
              | Inr c \<Rightarrow>
                 (case Rename w d ''config.json'' ''config.json.old'' of
                    (Some e, _) \<Rightarrow> Inl (''Error renaming config file: '' @ e)
                  | (None, d') \<Rightarrow> Inr \<lparr>config = c, logged = [], disk = d'\<rparr>))))"

definition finish_original :: "world \<Rightarrow> prog_state \<Rightarrow> exit \<times> prog_state" where
  "finish_original w s =
     (case WriteFile w 0 (disk s) ''config.json'' (MarshalIndent (config s)) of
        (Some e, d') \<Rightarrow> (Fatal (''Error writing updated config file: '' @ e), s\<lparr>disk := d'\<rparr>)
      | (None, d') \<Rightarrow> (Exit0, s\<lparr>disk := d'\<rparr>))"

definition main_original :: "world \<Rightarrow> fs \<Rightarrow> (exit \<times> prog_state) option" where
  "main_original w d =
     (case startup_original w d of
        Inl msg \<Rightarrow> Some (Fatal msg, \<lparr>config = \<lparr>NetworkStartBlock = None\<rparr>, logged = [], disk = d\<rparr>)
      | Inr s \<Rightarrow>
         (case run_networks w targetTimestamp (networks_original w) s of
            None \<Rightarrow> None
          | Some (Exit0, s') \<Rightarrow> Some (finish_original w s')
          | Some (e, s') \<Rightarrow> Some (e, s')))"

subsection \<open>\<^verbatim>\<open>main\<close>, hardened variant\<close>

definition startup_hardened :: "world \<Rightarrow> fs \<Rightarrow> string + prog_state" where
  "startup_hardened w d =
     (let l = (case dotenv_Load w of Some e \<Rightarrow> [''Error loading .env file: '' @ e] | None \<Rightarrow> [])
      in case ReadFile d ''config.json'' of
           Inl e \<Rightarrow> Inl (''Error reading config file: '' @ e)
         | Inr configFile \<Rightarrow>
            (case Unmarshal configFile of
               Inl e \<Rightarrow> Inl (''Error parsing config file: '' @ e)
             | Inr c \<Rightarrow> Inr \<lparr>config = c, logged = l, disk = d\<rparr>))"

definition farcasterTimestamp :: int64 where
  "farcasterTimestamp = targetTimestamp - (9 * 30 * 24 * 60 * 60)"

fun retry_write ::
  "world \<Rightarrow> content \<Rightarrow> nat \<Rightarrow> nat \<Rightarrow> string \<Rightarrow> fs \<Rightarrow> string option \<times> fs" where
  "retry_write w data 0 i err d = (Some err, d)"
| "retry_write w data (Suc n) i err d =
     (case WriteFile w i d ''config.json'' data of
        (None, d') \<Rightarrow> (None, d')
      | (Some e, d') \<Rightarrow> retry_write w data n (Suc i) e d')"

definition finish_hardened :: "world \<Rightarrow> prog_state \<Rightarrow> exit \<times> prog_state" where
  "finish_hardened w s =
     (case assign (config s) ''farcaster'' farcasterTimestamp of
        None \<Rightarrow> (Panicked, s)
      | Some c \<Rightarrow>
         (let updatedConfig = MarshalIndent c; s' = s\<lparr>config := c\<rparr> in
          case WriteFile w 0 (disk s') ''config.json'' updatedConfig of
            (None, d') \<Rightarrow> (Exit0, s'\<lparr>disk := d'\<rparr>)
          | (Some e, d') \<Rightarrow>
             (case retry_write w updatedConfig 3 1 e d' of
                (None, d'') \<Rightarrow> (Exit0, s'\<lparr>disk := d''\<rparr>)
              | (Some e', d'') \<Rightarrow>
                  (Fatal (''Error writing updated config file after retries: '' @ e'),
                   s'\<lparr>disk := d''\<rparr>))))"

definition main_hardened :: "world \<Rightarrow> fs \<Rightarrow> (exit \<times> prog_state) option" where
  "main_hardened w d =
     (case startup_hardened w d of
        Inl msg \<Rightarrow> Some (Fatal msg, \<lparr>config = \<lparr>NetworkStartBlock = None\<rparr>, logged = [], disk = d\<rparr>)
      | Inr s \<Rightarrow>
         (case run_networks w targetTimestamp (networks_hardened w) s of
            None \<Rightarrow> None
          | Some (Exit0, s') \<Rightarrow> Some (finish_hardened w s')
          | Some (e, s') \<Rightarrow> Some (e, s')))"

section \<open>The search both functions implement\<close>

text \<open>
  The binary search over unbounded heights and timestamps, with the answer to a probe as
  an error, an undecodable payload or a timestamp. It is the common form of the two loops
  above and is used to reason about them.
\<close>

datatype probe = PErr string | PBad | PTs int

function locate ::
  "(int \<Rightarrow> probe) \<Rightarrow> int \<Rightarrow> int \<Rightarrow> int \<Rightarrow> call list \<Rightarrow> int result \<times> call list" where
  "locate f T low high tr =
     (if low \<le> high then
        (let mid = (low + high) div 2; tr' = tr @ [BlockFetch mid] in
         case f mid of
           PErr e \<Rightarrow> (Err (''error getting block '' @ decimal mid @ '': '' @ e), tr')
         | PBad \<Rightarrow> (Panic, tr')
         | PTs t \<Rightarrow>
             if t = T then (Ok mid, tr')
             else if t < T then locate f T (mid + 1) high tr'
             else locate f T low (mid - 1) tr')
      else (Ok low, tr))"
  by pat_completeness auto
termination
  by (relation "measure (\<lambda>(f, T, low, high, tr). nat (high + 1 - low))") auto

declare locate.simps [simp del]

definition rpc_probe :: "(int \<Rightarrow> string + string) \<Rightarrow> int \<Rightarrow> probe" where
  "rpc_probe getBlock h =
     (case getBlock h of
        Inl e \<Rightarrow> PErr e
      | Inr s \<Rightarrow> (case DecodeBig s of Inl _ \<Rightarrow> PBad | Inr t \<Rightarrow> PTs (sint (Int64 t))))"

definition ar_probe :: "(int64 \<Rightarrow> string + int64 option) \<Rightarrow> int \<Rightarrow> probe" where
  "ar_probe getBlock h =
     (case getBlock (word_of_int h) of
        Inl e \<Rightarrow> PErr e
      | Inr None \<Rightarrow> PBad
      | Inr (Some t) \<Rightarrow> PTs (sint t))"

fun to_int64 :: "int result \<times> call list \<Rightarrow> int64 result \<times> call list" where
  "to_int64 (Ok r, tr) = (Ok (word_of_int r), tr)"
| "to_int64 (Err e, tr) = (Err e, tr)"
| "to_int64 (Panic, tr) = (Panic, tr)"

section \<open>Ledgers\<close>

text \<open>
  A ledger of \<open>H\<close> blocks with timestamps \<open>ts\<close>, as each client presents it: the head
  height is \<open>H\<close>, every height from 1 to \<open>H\<close> answers with its timestamp, and the
  timestamps do not decrease with the height. For the RPC client the timestamp field
  decodes to a value below \<open>2^63\<close>; for the Arweave client \<open>H\<close> is below \<open>2^62\<close>.
\<close>

definition rpc_ledger :: "rpc_client \<Rightarrow> int \<Rightarrow> (int \<Rightarrow> int) \<Rightarrow> bool" where
  "rpc_ledger c H ts \<longleftrightarrow>
     eth_blockNumber c = Inr H \<and> 1 \<le> H \<and>
     (\<forall>h\<in>{1..H}. (case eth_getBlockByNumber c h of
                     Inl _ \<Rightarrow> False
                   | Inr s \<Rightarrow> DecodeBig s = Inr (ts h)) \<and> ts h < 2 ^ 63) \<and>
     (\<forall>x\<in>{1..H}. \<forall>y\<in>{1..H}. x \<le> y \<longrightarrow> ts x \<le> ts y)"

definition arweave_ledger :: "arweave_client \<Rightarrow> int \<Rightarrow> (int \<Rightarrow> int) \<Rightarrow> bool" where
  "arweave_ledger c H ts \<longleftrightarrow>
     GetBlockHeight c = Inr (word_of_int H) \<and> 1 \<le> H \<and> H < 2 ^ 62 \<and>
     (\<forall>h\<in>{1..H}. GetBlockByHeight c (word_of_int h) = Inr (Some (word_of_int (ts h))) \<and>
                  - (2 ^ 63) \<le> ts h \<and> ts h < 2 ^ 63) \<and>
     (\<forall>x\<in>{1..H}. \<forall>y\<in>{1..H}. x \<le> y \<longrightarrow> ts x \<le> ts y)"

text \<open>
  The answer \<open>r\<close> after the probes \<open>ps\<close>: the probe that hit the target exactly, or
  else the first height whose timestamp is not below the target (\<open>H + 1\<close> when there
  is none).
\<close>

definition boundary :: "(int \<Rightarrow> int) \<Rightarrow> int \<Rightarrow> int \<Rightarrow> int list \<Rightarrow> int \<Rightarrow> bool" where
  "boundary ts H T ps r \<longleftrightarrow>
     (if \<exists>p\<in>set ps. ts p = T then r = last ps \<and> ts r = T
      else 1 \<le> r \<and> r \<le> H + 1 \<and> (\<forall>x\<in>{1..H}. x < r \<longrightarrow> ts x < T) \<and>
           (\<forall>x\<in>{1..H}. r \<le> x \<longrightarrow> T < ts x))"

section \<open>Sample ledgers\<close>

text \<open>
  Sixteen blocks with timestamp \<open>1000 + 100 * height\<close>, behind each kind of client; an
  Arweave ledger of \<open>2^62\<close> blocks whose last block alone is not older than the target;
  and an RPC ledger whose timestamps need more than 64 bits.
\<close>

definition linear_rpc :: rpc_client where
  "linear_rpc =
     \<lparr>eth_blockNumber = Inr 16,
      eth_getBlockByNumber = (\<lambda>h. if 1 \<le> h \<and> h \<le> 16 then
         Inr ([''0x44c'', ''0x4b0'', ''0x514'', ''0x578'', ''0x5dc'', ''0x640'', ''0x6a4'', ''0x708'',
               ''0x76c'', ''0x7d0'', ''0x834'', ''0x898'', ''0x8fc'', ''0x960'', ''0x9c4'', ''0xa28''] ! nat (h - 1))
         else Inr []),
      eth_getBlockLatest = None\<rparr>"

definition linear_arweave :: "int64 \<Rightarrow> arweave_client" where
  "linear_arweave H =
     \<lparr>GetBlockHeight = Inr H,
      GetBlockByHeight = (\<lambda>h. if 1 \<le>s h \<and> h \<le>s H then Inr (Some (1000 + 100 * h))
                                else Inl ''block not found'')\<rparr>"

definition late_arweave :: arweave_client where
  "late_arweave =
     \<lparr>GetBlockHeight = Inr 4611686018427387904,
      GetBlockByHeight = (\<lambda>h. if 1 \<le>s h then Inr (Some (if h = 4611686018427387904 then 5 else 0))
                                else Inl ''block not found'')\<rparr>"

definition wide_rpc :: rpc_client where
  "wide_rpc =
     \<lparr>eth_blockNumber = Inr 2,
      eth_getBlockByNumber = (\<lambda>h. if h = 1 then Inr ''0x10000000000000000'' else Inr ''0x10000000000000001''),
      eth_getBlockLatest = None\<rparr>"

text \<open>
  Ledgers at the edge of int64: \<open>2^62\<close> blocks all older than the target, and
  \<open>2^63 - 1\<close> blocks behind a client that answers every height. Clients of three
  blocks older than the target whose fetch at height 3 fails: the search probes height 2
  and then height 3.
\<close>

definition stale_arweave :: arweave_client where
  "stale_arweave =
     \<lparr>GetBlockHeight = Inr 4611686018427387904,
      GetBlockByHeight = (\<lambda>h. if 1 \<le>s h then Inr (Some 0) else Inl ''block not found'')\<rparr>"

definition frozen_arweave :: arweave_client where
  "frozen_arweave =
     \<lparr>GetBlockHeight = Inr 9223372036854775807, GetBlockByHeight = (\<lambda>h. Inr (Some 0))\<rparr>"

definition flaky_rpc :: rpc_client where
  "flaky_rpc =
     \<lparr>eth_blockNumber = Inr 3,
      eth_getBlockByNumber = (\<lambda>h. if h = 3 then Inl ''timeout'' else Inr ''0x1''),
      eth_getBlockLatest = None\<rparr>"

definition flaky_arweave :: arweave_client where
  "flaky_arweave =
     \<lparr>GetBlockHeight = Inr 3,
      GetBlockByHeight = (\<lambda>h. if h = 3 then Inl ''timeout'' else Inr (Some 1))\<rparr>"

text \<open>
  Clients whose endpoint is down, and an RPC client that answers \<^verbatim>\<open>null\<close> at height 2.
\<close>

definition down_rpc :: rpc_client where
  "down_rpc =
     \<lparr>eth_blockNumber = Inl ''connection refused'',
      eth_getBlockByNumber = (\<lambda>h. Inl ''connection refused''),
      eth_getBlockLatest = Some ''connection refused''\<rparr>"

definition down_arweave :: arweave_client where
  "down_arweave =
     \<lparr>GetBlockHeight = Inl ''connection refused'',
      GetBlockByHeight = (\<lambda>h. Inl ''connection refused'')\<rparr>"

definition pruned_rpc :: rpc_client where
  "pruned_rpc =
     \<lparr>eth_blockNumber = Inr 3,
      eth_getBlockByNumber = (\<lambda>h. if h = 2 then Inr [] else Inr ''0x1''),
      eth_getBlockLatest = None\<rparr>"

section \<open>Sample runs of \<^verbatim>\<open>main\<close>\<close>

text \<open>
  RPC clients: a chain that stopped before the target time, a chain with a block at
  the target time, a chain of \<open>2^64\<close> blocks, and a chain whose timestamp needs 65
  bits. A config document with two entries and a further top-level key; an empty
  config document. Environments: every endpoint unset; only \<^verbatim>\<open>ETHEREUM_RPC_URL\<close> set;
  a directory in which the rename fails.
\<close>

definition halted_rpc :: rpc_client where
  "halted_rpc =
     \<lparr>eth_blockNumber = Inr 3,
      eth_getBlockByNumber = (\<lambda>h. if 1 \<le> h \<and> h \<le> 3 then Inr ''0x5'' else Inr []),
      eth_getBlockLatest = None\<rparr>"

definition live_rpc :: rpc_client where
  "live_rpc =
     \<lparr>eth_blockNumber = Inr 3,
      eth_getBlockByNumber = (\<lambda>h. if h = 1 then Inr ''0x665a6474''
                                else if h = 2 then Inr ''0x665a6480''
                                else if h = 3 then Inr ''0x665a648c'' else Inr []),
      eth_getBlockLatest = None\<rparr>"

definition tall_rpc :: rpc_client where
  "tall_rpc =
     \<lparr>eth_blockNumber = Inr 18446744073709551616,
      eth_getBlockByNumber = (\<lambda>h. if h < 9223372036854775813 then Inr ''0x1'' else Inr ''0x665a6481''),
      eth_getBlockLatest = None\<rparr>"

definition wrapped_rpc :: rpc_client where
  "wrapped_rpc =
     \<lparr>eth_blockNumber = Inr 1,
      eth_getBlockByNumber = (\<lambda>h. Inr ''0x100000000665a6480''),
      eth_getBlockLatest = None\<rparr>"

definition sample_document :: content where
  "sample_document =
     Document (JObject
       [(''network_start_block'', JObject [(''ethereum'', JInt 1), (''polygon'', JInt 2)]),
        (''version'', JInt 7)])"

definition sample_disk :: fs where
  "sample_disk = Map.empty(''config.json'' := Some sample_document)"

definition empty_disk :: fs where
  "empty_disk = Map.empty(''config.json'' := Some (Document (JObject [])))"



definition offline_world :: world where
  "offline_world =
     \<lparr>dotenv_Load = None,
      Getenv = (\<lambda>k. []),
      rpc_Dial = (\<lambda>url. Inl ''dial unix: missing address''),
      arweave_NewClient = (\<lambda>url. Inr down_arweave),
      rename_error = None,
      write_result = (\<lambda>i. Written)\<rparr>"

definition one_chain_world :: "rpc_client \<Rightarrow> world" where
  "one_chain_world c =
     \<lparr>dotenv_Load = None,
      Getenv = (\<lambda>k. if k = ''ETHEREUM_RPC_URL'' then ''http://localhost:8545'' else []),
      rpc_Dial = (\<lambda>url. if url = ''http://localhost:8545'' then Inr c
                         else Inl ''dial unix: missing address''),
      arweave_NewClient = (\<lambda>url. Inr down_arweave),
      rename_error = None,
      write_result = (\<lambda>i. Written)\<rparr>"

definition readonly_world :: world where
  "readonly_world = offline_world\<lparr>rename_error := Some ''permission denied''\<rparr>"

definition tall_timestamps :: "int \<Rightarrow> int" where
  "tall_timestamps h = (if h < 9223372036854775813 then 1 else 1717200001)"

definition left_on_disk ::
  "(exit \<times> prog_state) option \<Rightarrow> (exit \<times> content option \<times> content option) option" where
  \<comment> \<open>how a run ended, and what it left in config.json and in config.json.old\<close>
  "left_on_disk run =
     map_option (\<lambda>(ex, s). (ex, disk s ''config.json'', disk s ''config.json.old'')) run"

section \<open>Properties of the searches\<close>

subsection \<open>Unfolding the loops on concrete inputs\<close>

lemma decimal_nat_digit: "n < 10 \<Longrightarrow> decimal_nat n = [digit_char n]"
  by (simp add: decimal_nat.simps [of n])

lemma decimal_nat_more:
  "\<not> n < 10 \<Longrightarrow> decimal_nat n = decimal_nat (n div 10) @ [digit_char (n mod 10)]"
  by (simp add: decimal_nat.simps [of n])

lemma rpc_loop_done: "\<not> low \<le> high \<Longrightarrow> rpc_loop g T low high tr = (Ok low, tr)"
  by (simp add: rpc_loop.simps [of g T low high tr])

lemma rpc_loop_probe:
  "low \<le> high \<Longrightarrow> rpc_loop g T low high tr =
     (case g ((low + high) div 2) of
        Inl e \<Rightarrow> (Err (''error getting block '' @ decimal ((low + high) div 2) @ '': '' @ e),
                  tr @ [BlockFetch ((low + high) div 2)])
      | Inr timestamp \<Rightarrow>
         (case DecodeBig timestamp of
            Inl _ \<Rightarrow> (Panic, tr @ [BlockFetch ((low + high) div 2)])
          | Inr blockTimestamp \<Rightarrow>
              if Int64 blockTimestamp = T then (Ok ((low + high) div 2), tr @ [BlockFetch ((low + high) div 2)])
              else if Int64 blockTimestamp <s T
                then rpc_loop g T ((low + high) div 2 + 1) high (tr @ [BlockFetch ((low + high) div 2)])
              else rpc_loop g T low ((low + high) div 2 - 1) (tr @ [BlockFetch ((low + high) div 2)])))"
  by (simp add: rpc_loop.simps [of g T low high tr] Let_def)

lemma arweave_loop_done: "\<not> low \<le>s high \<Longrightarrow> arweave_loop g T low high tr = Some (Ok low, tr)"
  by (simp add: arweave_loop.simps [of g T low high tr])

lemma arweave_loop_probe:
  "low \<le>s high \<Longrightarrow> arweave_loop g T low high tr =
     (case g (quo64 (low + high) 2) of
        Inl e \<Rightarrow> Some (Err (''error getting block '' @ decimal (sint (quo64 (low + high) 2)) @ '': '' @ e),
                  tr @ [BlockFetch (sint (quo64 (low + high) 2))])
      | Inr None \<Rightarrow> Some (Panic, tr @ [BlockFetch (sint (quo64 (low + high) 2))])
      | Inr (Some timestamp) \<Rightarrow>
          if timestamp = T then Some (Ok (quo64 (low + high) 2), tr @ [BlockFetch (sint (quo64 (low + high) 2))])
          else if timestamp <s T
            then arweave_loop g T (quo64 (low + high) 2 + 1) high (tr @ [BlockFetch (sint (quo64 (low + high) 2))])
          else arweave_loop g T low (quo64 (low + high) 2 - 1) (tr @ [BlockFetch (sint (quo64 (low + high) 2))]))"
  by (simp add: arweave_loop.simps [of g T low high tr] Let_def)

subsection \<open>Arithmetic of int64\<close>

lemma sint_plus_nowrap:
  "- (2 ^ 63) \<le> sint a + sint b \<Longrightarrow> sint a + sint b < 2 ^ 63 \<Longrightarrow> sint (a + b :: int64) = sint a + sint b"
  by (simp add: sint_word_ariths signed_take_bit_int_eq_self)

lemma sint_minus_nowrap:
  "- (2 ^ 63) \<le> sint a - sint b \<Longrightarrow> sint a - sint b < 2 ^ 63 \<Longrightarrow> sint (a - b :: int64) = sint a - sint b"
  by (simp add: sint_word_ariths signed_take_bit_int_eq_self)

lemma sint_of_int_nowrap:
  "- (2 ^ 63) \<le> x \<Longrightarrow> x < 2 ^ 63 \<Longrightarrow> sint (word_of_int x :: int64) = x"
  by (simp add: sint_sbintrunc' signed_take_bit_int_eq_self)

lemma sint_quo64_2:
  assumes "0 \<le> sint a"
  shows "sint (quo64 a 2) = sint a div 2"
proof -
  have "sint a < 2 ^ 63" using sint_less [of a] by simp
  have s: "sint a sdiv 2 = sint a div 2"
    using assms by (simp add: signed_divide_int_def sgn_if)
  have "0 \<le> sint a div 2" "sint a div 2 < 2 ^ 63" using assms \<open>sint a < 2 ^ 63\<close> by auto
  then show ?thesis unfolding quo64_def using s by (simp add: sint_of_int_nowrap)
qed

lemma sint_inj: "sint (a :: int64) = sint b \<longleftrightarrow> a = b"
  by (auto intro: signed_word_eqI)

lemma rpc_loop_locate:
  "rpc_loop g T low high tr = locate (rpc_probe g) (sint T) low high tr"
proof (induction g T low high tr rule: rpc_loop.induct)
  case (1 g T low high tr)
  show ?case
  proof (cases "low \<le> high")
    case False
    then show ?thesis
      by (simp add: rpc_loop.simps [of g T low high tr] locate.simps [of _ _ low high tr])
  next
    case True
    define mid where "mid = (low + high) div 2"
    show ?thesis
    proof (cases "g mid")
      case (Inl e)
      then show ?thesis using True
        by (simp add: rpc_loop.simps [of g T low high tr] locate.simps [of _ _ low high tr]
            mid_def [symmetric] Let_def rpc_probe_def)
    next
      case (Inr s)
      show ?thesis
      proof (cases "DecodeBig s")
        case (Inl err)
        then show ?thesis using True Inr
          by (simp add: rpc_loop.simps [of g T low high tr] locate.simps [of _ _ low high tr]
              mid_def [symmetric] Let_def rpc_probe_def)
      next
        case (Inr t)
        note dec = this
        consider "Int64 t = T" | "Int64 t \<noteq> T" "Int64 t <s T" | "Int64 t \<noteq> T" "\<not> Int64 t <s T"
          by blast
        then show ?thesis
        proof cases
          case 1
          then show ?thesis using True \<open>g mid = Inr s\<close> dec
            by (simp add: rpc_loop.simps [of g T low high tr] locate.simps [of _ _ low high tr]
                mid_def [symmetric] Let_def rpc_probe_def)
        next
          case 2
          from "1.IH"(1) [OF True mid_def refl \<open>g mid = Inr s\<close> dec 2]
          show ?thesis using True \<open>g mid = Inr s\<close> dec 2
            by (simp add: rpc_loop.simps [of g T low high tr] locate.simps [of _ _ low high tr]
                mid_def [symmetric] Let_def rpc_probe_def sint_inj word_sless_alt)
        next
          case 3
          from "1.IH"(2) [OF True mid_def refl \<open>g mid = Inr s\<close> dec 3]
          show ?thesis using True \<open>g mid = Inr s\<close> dec 3
            by (simp add: rpc_loop.simps [of g T low high tr] locate.simps [of _ _ low high tr]
                mid_def [symmetric] Let_def rpc_probe_def sint_inj word_sless_alt)
        qed
      qed
    qed
  qed
qed

lemma arweave_loop_locate:
  "1 \<le> sint low \<Longrightarrow> sint low \<le> sint high + 1 \<Longrightarrow> sint high < 2 ^ 62 \<Longrightarrow>
   arweave_loop g T low high tr =
     Some (to_int64 (locate (ar_probe g) (sint T) (sint low) (sint high) tr))"
proof (induction "nat (sint high + 1 - sint low)" arbitrary: low high tr rule: less_induct)
  case less
  show ?case
  proof (cases "low \<le>s high")
    case False
    then have "\<not> sint low \<le> sint high" by (simp add: word_sle_eq)
    then show ?thesis using False
      by (simp add: arweave_loop.simps [of g T low high tr] locate.simps [of _ _ "sint low" "sint high" tr])
  next
    case True
    then have le: "sint low \<le> sint high" by (simp add: word_sle_eq)
    define mid where "mid = quo64 (low + high) 2"
    have sum: "sint (low + high) = sint low + sint high"
      using less.prems le by (intro sint_plus_nowrap) auto
    have smid: "sint mid = (sint low + sint high) div 2"
      unfolding mid_def using sint_quo64_2 [of "low + high"] sum less.prems le by simp
    have midr: "sint low \<le> sint mid" "sint mid \<le> sint high" using le smid by auto
    have s1: "sint (1 :: int64) = 1" by simp
    have up: "sint (mid + 1) = sint mid + 1"
      using sint_plus_nowrap [of mid 1] midr less.prems by (simp add: s1)
    have dn: "sint (mid - 1) = sint mid - 1"
      using sint_minus_nowrap [of mid 1] midr less.prems by (simp add: s1)
    have wmid: "word_of_int (sint mid) = mid" by simp
    show ?thesis
    proof (cases "g mid")
      case (Inl e)
      then show ?thesis using True le
        by (simp add: arweave_loop.simps [of g T low high tr] locate.simps [of _ _ "sint low" "sint high" tr]
            mid_def [symmetric] smid [symmetric] Let_def ar_probe_def)
    next
      case (Inr b)
      show ?thesis
      proof (cases b)
        case None
        then show ?thesis using True le Inr
          by (simp add: arweave_loop.simps [of g T low high tr] locate.simps [of _ _ "sint low" "sint high" tr]
              mid_def [symmetric] smid [symmetric] Let_def ar_probe_def)
      next
      case (Some t)
      note Inr = Inr [unfolded Some]
      consider "t = T" | "t \<noteq> T" "t <s T" | "t \<noteq> T" "\<not> t <s T" by blast
      then show ?thesis
      proof cases
        case 1
        then show ?thesis using True le Inr
          by (simp add: arweave_loop.simps [of g T low high tr] locate.simps [of _ _ "sint low" "sint high" tr]
              mid_def [symmetric] smid [symmetric] Let_def ar_probe_def)
      next
        case 2
        have "arweave_loop g T (mid + 1) high (tr @ [BlockFetch (sint mid)]) =
          Some (to_int64 (locate (ar_probe g) (sint T) (sint (mid + 1)) (sint high) (tr @ [BlockFetch (sint mid)])))"
          using less.prems midr up by (intro less.hyps) auto
        then show ?thesis using True le Inr 2 up
          by (simp add: arweave_loop.simps [of g T low high tr] locate.simps [of _ _ "sint low" "sint high" tr]
              mid_def [symmetric] smid [symmetric] Let_def ar_probe_def sint_inj word_sless_alt)
      next
        case 3
        have "arweave_loop g T low (mid - 1) (tr @ [BlockFetch (sint mid)]) =
          Some (to_int64 (locate (ar_probe g) (sint T) (sint low) (sint (mid - 1)) (tr @ [BlockFetch (sint mid)])))"
          using less.prems midr dn by (intro less.hyps) auto
        then show ?thesis using True le Inr 3 dn
          by (simp add: arweave_loop.simps [of g T low high tr] locate.simps [of _ _ "sint low" "sint high" tr]
              mid_def [symmetric] smid [symmetric] Let_def ar_probe_def sint_inj word_sless_alt)
      qed
      qed
    qed
  qed
qed

subsection \<open>The common search\<close>

lemma locate_trace:
  "high + 1 - low < 2 ^ k \<Longrightarrow>
   \<exists>ps. snd (locate f T low high tr) = tr @ map BlockFetch ps \<and> set ps \<subseteq> {low..high} \<and> length ps \<le> k"
proof (induction f T low high tr arbitrary: k rule: locate.induct)
  case (1 f T low high tr)
  show ?case
  proof (cases "low \<le> high")
    case False
    then show ?thesis by (simp add: locate.simps [of f T low high tr])
  next
    case True
    define mid where "mid = (low + high) div 2"
    have mid: "low \<le> mid" "mid \<le> high" using True by (auto simp: mid_def)
    from True 1(3) have "k \<noteq> 0" by (cases k) auto
    then obtain k' where k: "k = Suc k'" by (cases k) auto
    have b1: "high + 1 - (mid + 1) < 2 ^ k'" using 1(3) True unfolding k mid_def by simp
    have b2: "(mid - 1) + 1 - low < 2 ^ k'" using 1(3) True unfolding k mid_def by simp
    show ?thesis
    proof (cases "f mid")
      case (PErr e)
      then show ?thesis using mid k
        by (simp add: locate.simps [of f T low high tr] mid_def [symmetric] Let_def)
           (rule exI [of _ "[mid]"], simp)
    next
      case PBad
      then show ?thesis using mid k
        by (simp add: locate.simps [of f T low high tr] mid_def [symmetric] Let_def)
           (rule exI [of _ "[mid]"], simp)
    next
      case (PTs t)
      consider "t = T" | "t < T" | "T < t" by linarith
      then show ?thesis
      proof cases
        case 1
        then show ?thesis using mid k PTs
          by (simp add: locate.simps [of f T low high tr] mid_def [symmetric] Let_def)
             (rule exI [of _ "[mid]"], simp)
      next
        case 2
        from "1.IH"(1) [OF True mid_def refl PTs _ 2 b1] 2
        obtain ps where ps: "snd (locate f T (mid + 1) high (tr @ [BlockFetch mid])) = (tr @ [BlockFetch mid]) @ map BlockFetch ps"
          "set ps \<subseteq> {mid + 1..high}" "length ps \<le> k'" by auto
        show ?thesis using mid k PTs 2 ps
          by (simp add: locate.simps [of f T low high tr] mid_def [symmetric] Let_def)
             (rule exI [of _ "mid # ps"], auto)
      next
        case 3
        from "1.IH"(2) [OF True mid_def refl PTs _ _ b2] 3
        obtain ps where ps: "snd (locate f T low (mid - 1) (tr @ [BlockFetch mid])) = (tr @ [BlockFetch mid]) @ map BlockFetch ps"
          "set ps \<subseteq> {low..mid - 1}" "length ps \<le> k'" by auto
        show ?thesis using mid k PTs 3 ps
          by (simp add: locate.simps [of f T low high tr] mid_def [symmetric] Let_def)
             (rule exI [of _ "mid # ps"], auto)
      qed
    qed
  qed
qed

lemma locate_correct:
  assumes "1 \<le> low" "low \<le> high + 1" "high \<le> H"
    and "\<forall>x\<in>{1..H}. f x = PTs (ts x)"
    and "\<forall>x\<in>{1..H}. \<forall>y\<in>{1..H}. x \<le> y \<longrightarrow> ts x \<le> ts y"
    and "\<forall>x\<in>{1..H}. x < low \<longrightarrow> ts x < T"
    and "\<forall>x\<in>{1..H}. high < x \<longrightarrow> T < ts x"
  shows "\<exists>r ps. locate f T low high tr = (Ok r, tr @ map BlockFetch ps) \<and> set ps \<subseteq> {low..high} \<and>
           (if \<exists>p\<in>set ps. ts p = T then ts r = T \<and> r = last ps
            else low \<le> r \<and> r \<le> high + 1 \<and> (\<forall>x\<in>{1..H}. x < r \<longrightarrow> ts x < T) \<and>
                 (\<forall>x\<in>{1..H}. r \<le> x \<longrightarrow> T < ts x))"
  using assms
proof (induction f T low high tr rule: locate.induct)
  case (1 f T low high tr)
  show ?case
  proof (cases "low \<le> high")
    case False
    with 1(3-) have lh: "low = high + 1" by simp
    have "locate f T low high tr = (Ok low, tr @ map BlockFetch [])"
      using False by (simp add: locate.simps [of f T low high tr])
    then show ?thesis using lh "1.prems"
      by (intro exI [of _ low] exI [of _ "[]"]) auto
  next
    case True
    define mid where "mid = (low + high) div 2"
    have mid: "low \<le> mid" "mid \<le> high" using True by (auto simp: mid_def)
    have midH: "mid \<in> {1..H}" using mid 1(3-) by auto
    then have fm: "f mid = PTs (ts mid)" using 1(3-) by blast
    consider "ts mid = T" | "ts mid < T" | "T < ts mid" by linarith
    then show ?thesis
    proof cases
      case 1
      have "locate f T low high tr = (Ok mid, tr @ map BlockFetch [mid])"
        using True fm 1 by (simp add: locate.simps [of f T low high tr] mid_def [symmetric] Let_def)
      moreover have "set [mid] \<subseteq> {low..high}" using mid by simp
      ultimately show ?thesis using 1 by (intro exI [of _ mid] exI [of _ "[mid]"]) simp
    next
      case 2
      have ne: "ts mid \<noteq> T" using 2 by simp
      have below: "\<forall>x\<in>{1..H}. x < mid + 1 \<longrightarrow> ts x < T"
      proof (intro ballI impI)
        fix x assume "x \<in> {1..H}" "x < mid + 1"
        then have "ts x \<le> ts mid" using "1.prems"(5) midH by auto
        then show "ts x < T" using 2 by simp
      qed
      have "\<exists>r ps. locate f T (mid + 1) high (tr @ [BlockFetch mid]) = (Ok r, (tr @ [BlockFetch mid]) @ map BlockFetch ps) \<and>
           set ps \<subseteq> {mid + 1..high} \<and>
           (if \<exists>p\<in>set ps. ts p = T then ts r = T \<and> r = last ps
            else mid + 1 \<le> r \<and> r \<le> high + 1 \<and> (\<forall>x\<in>{1..H}. x < r \<longrightarrow> ts x < T) \<and>
                 (\<forall>x\<in>{1..H}. r \<le> x \<longrightarrow> T < ts x))"
        using mid "1.prems" below
        by (intro "1.IH"(1) [OF True mid_def refl fm ne 2]) auto
      then obtain r ps where rec: "locate f T (mid + 1) high (tr @ [BlockFetch mid]) = (Ok r, (tr @ [BlockFetch mid]) @ map BlockFetch ps)"
        and sub: "set ps \<subseteq> {mid + 1..high}"
        and res: "(if \<exists>p\<in>set ps. ts p = T then ts r = T \<and> r = last ps
            else mid + 1 \<le> r \<and> r \<le> high + 1 \<and> (\<forall>x\<in>{1..H}. x < r \<longrightarrow> ts x < T) \<and>
                 (\<forall>x\<in>{1..H}. r \<le> x \<longrightarrow> T < ts x))" by blast
      have eq: "locate f T low high tr = (Ok r, tr @ map BlockFetch (mid # ps))"
        using True fm 2 rec by (simp add: locate.simps [of f T low high tr] mid_def [symmetric] Let_def)
      have sub': "set (mid # ps) \<subseteq> {low..high}" using sub mid by auto
      have ex: "(\<exists>p\<in>set (mid # ps). ts p = T) \<longleftrightarrow> (\<exists>p\<in>set ps. ts p = T)" using ne by simp
      have "(if \<exists>p\<in>set (mid # ps). ts p = T then ts r = T \<and> r = last (mid # ps)
            else low \<le> r \<and> r \<le> high + 1 \<and> (\<forall>x\<in>{1..H}. x < r \<longrightarrow> ts x < T) \<and>
                 (\<forall>x\<in>{1..H}. r \<le> x \<longrightarrow> T < ts x))"
      proof (cases "\<exists>p\<in>set ps. ts p = T")
        case True
        then have "ps \<noteq> []" by auto
        then show ?thesis using True res ex by auto
      next
        case False
        then show ?thesis using res ex mid by simp
      qed
      with eq sub' show ?thesis by blast
    next
      case 3
      have ne: "ts mid \<noteq> T" and nl: "\<not> ts mid < T" using 3 by simp_all
      have above: "\<forall>x\<in>{1..H}. mid - 1 < x \<longrightarrow> T < ts x"
      proof (intro ballI impI)
        fix x assume "x \<in> {1..H}" "mid - 1 < x"
        then have "ts mid \<le> ts x" using "1.prems"(5) midH by auto
        then show "T < ts x" using 3 by simp
      qed
      have "\<exists>r ps. locate f T low (mid - 1) (tr @ [BlockFetch mid]) = (Ok r, (tr @ [BlockFetch mid]) @ map BlockFetch ps) \<and>
           set ps \<subseteq> {low..mid - 1} \<and>
           (if \<exists>p\<in>set ps. ts p = T then ts r = T \<and> r = last ps
            else low \<le> r \<and> r \<le> mid - 1 + 1 \<and> (\<forall>x\<in>{1..H}. x < r \<longrightarrow> ts x < T) \<and>
                 (\<forall>x\<in>{1..H}. r \<le> x \<longrightarrow> T < ts x))"
        using mid "1.prems" above
        by (intro "1.IH"(2) [OF True mid_def refl fm ne nl]) auto
      then obtain r ps where rec: "locate f T low (mid - 1) (tr @ [BlockFetch mid]) = (Ok r, (tr @ [BlockFetch mid]) @ map BlockFetch ps)"
        and sub: "set ps \<subseteq> {low..mid - 1}"
        and res: "(if \<exists>p\<in>set ps. ts p = T then ts r = T \<and> r = last ps
            else low \<le> r \<and> r \<le> mid - 1 + 1 \<and> (\<forall>x\<in>{1..H}. x < r \<longrightarrow> ts x < T) \<and>
                 (\<forall>x\<in>{1..H}. r \<le> x \<longrightarrow> T < ts x))" by blast
      have eq: "locate f T low high tr = (Ok r, tr @ map BlockFetch (mid # ps))"
        using True fm 3 rec by (simp add: locate.simps [of f T low high tr] mid_def [symmetric] Let_def)
      have sub': "set (mid # ps) \<subseteq> {low..high}" using sub mid by auto
      have ex: "(\<exists>p\<in>set (mid # ps). ts p = T) \<longleftrightarrow> (\<exists>p\<in>set ps. ts p = T)" using ne by simp
      have "(if \<exists>p\<in>set (mid # ps). ts p = T then ts r = T \<and> r = last (mid # ps)
            else low \<le> r \<and> r \<le> high + 1 \<and> (\<forall>x\<in>{1..H}. x < r \<longrightarrow> ts x < T) \<and>
                 (\<forall>x\<in>{1..H}. r \<le> x \<longrightarrow> T < ts x))"
      proof (cases "\<exists>p\<in>set ps. ts p = T")
        case True
        then have "ps \<noteq> []" by auto
        then show ?thesis using True res ex by auto
      next
        case False
        then show ?thesis using res ex mid by simp
      qed
      with eq sub' show ?thesis by blast
    qed
  qed
qed

lemma locate_errors:
  "\<exists>ps. snd (locate f T low high tr) = tr @ map BlockFetch ps \<and>
     (\<forall>p e. p \<in> set ps \<and> f p = PErr e \<longrightarrow>
        fst (locate f T low high tr) = Err (''error getting block '' @ decimal p @ '': '' @ e) \<and> last ps = p)"
proof (induction f T low high tr rule: locate.induct)
  case (1 f T low high tr)
  show ?case
  proof (cases "low \<le> high")
    case False
    then show ?thesis by (simp add: locate.simps [of f T low high tr])
  next
    case True
    define mid where "mid = (low + high) div 2"
    show ?thesis
    proof (cases "f mid")
      case (PErr e)
      then have "locate f T low high tr = (Err (''error getting block '' @ decimal mid @ '': '' @ e), tr @ map BlockFetch [mid])"
        using True by (simp add: locate.simps [of f T low high tr] mid_def [symmetric] Let_def)
      then show ?thesis using PErr by (intro exI [of _ "[mid]"]) simp
    next
      case PBad
      then have "locate f T low high tr = (Panic, tr @ map BlockFetch [mid])"
        using True by (simp add: locate.simps [of f T low high tr] mid_def [symmetric] Let_def)
      then show ?thesis using PBad by (intro exI [of _ "[mid]"]) simp
    next
      case (PTs t)
      consider "t = T" | "t \<noteq> T" "t < T" | "t \<noteq> T" "\<not> t < T" by blast
      then show ?thesis
      proof cases
        case 1
        then have "locate f T low high tr = (Ok mid, tr @ map BlockFetch [mid])"
          using True PTs by (simp add: locate.simps [of f T low high tr] mid_def [symmetric] Let_def)
        then show ?thesis using PTs by (intro exI [of _ "[mid]"]) simp
      next
        case 2
        from "1.IH"(1) [OF True mid_def refl PTs 2]
        obtain ps where ps: "snd (locate f T (mid + 1) high (tr @ [BlockFetch mid])) = (tr @ [BlockFetch mid]) @ map BlockFetch ps"
          and er: "\<forall>p e. p \<in> set ps \<and> f p = PErr e \<longrightarrow>
            fst (locate f T (mid + 1) high (tr @ [BlockFetch mid])) = Err (''error getting block '' @ decimal p @ '': '' @ e) \<and> last ps = p"
          by blast
        have eq: "locate f T low high tr = locate f T (mid + 1) high (tr @ [BlockFetch mid])"
          using True PTs 2 by (simp add: locate.simps [of f T low high tr] mid_def [symmetric] Let_def)
        show ?thesis unfolding eq using ps er PTs
          by (intro exI [of _ "mid # ps"]) auto
      next
        case 3
        from "1.IH"(2) [OF True mid_def refl PTs 3]
        obtain ps where ps: "snd (locate f T low (mid - 1) (tr @ [BlockFetch mid])) = (tr @ [BlockFetch mid]) @ map BlockFetch ps"
          and er: "\<forall>p e. p \<in> set ps \<and> f p = PErr e \<longrightarrow>
            fst (locate f T low (mid - 1) (tr @ [BlockFetch mid])) = Err (''error getting block '' @ decimal p @ '': '' @ e) \<and> last ps = p"
          by blast
        have eq: "locate f T low high tr = locate f T low (mid - 1) (tr @ [BlockFetch mid])"
          using True PTs 3 by (simp add: locate.simps [of f T low high tr] mid_def [symmetric] Let_def)
        show ?thesis unfolding eq using ps er PTs
          by (intro exI [of _ "mid # ps"]) auto
      qed
    qed
  qed
qed

lemma arweave_loop_errors:
  "arweave_loop g T low high tr = Some y \<Longrightarrow>
   \<exists>ps. snd y = tr @ map (\<lambda>p. BlockFetch (sint p)) ps \<and>
     (\<forall>p e. p \<in> set ps \<and> g p = Inl e \<longrightarrow>
        fst y = Err (''error getting block '' @ decimal (sint p) @ '': '' @ e) \<and> last ps = p)"
proof (induct rule: arweave_loop.raw_induct [rotated 1, consumes 1, case_names step])
  case (step loop g T low high tr y)
  note ih = step(1) and run = step(2)
  show ?case
  proof (cases "low \<le>s high")
    case False
    with run have "y = (Ok low, tr)" by simp
    then show ?thesis by simp
  next
    case True
    define mid where "mid = quo64 (low + high) 2"
    show ?thesis
    proof (cases "g mid")
      case (Inl e)
      with run True have "y = (Err (''error getting block '' @ decimal (sint mid) @ '': '' @ e), tr @ [BlockFetch (sint mid)])"
        by (simp add: mid_def [symmetric] Let_def)
      then show ?thesis using Inl by (intro exI [of _ "[mid]"]) simp
    next
      case (Inr b)
      show ?thesis
      proof (cases b)
        case None
        with run True Inr have "y = (Panic, tr @ [BlockFetch (sint mid)])"
          by (simp add: mid_def [symmetric] Let_def)
        then show ?thesis using Inr by (intro exI [of _ "[mid]"]) simp
      next
      case (Some t)
      note Inr = Inr [unfolded Some]
      consider "t = T" | "t \<noteq> T" "t <s T" | "t \<noteq> T" "\<not> t <s T" by blast
      then show ?thesis
      proof cases
        case 1
        with run True Inr have "y = (Ok mid, tr @ [BlockFetch (sint mid)])"
          by (simp add: mid_def [symmetric] Let_def)
        then show ?thesis using Inr by (intro exI [of _ "[mid]"]) simp
      next
        case 2
        with run True Inr have "loop g T (mid + 1) high (tr @ [BlockFetch (sint mid)]) = Some y"
          by (simp add: mid_def [symmetric] Let_def)
        from ih [OF this] obtain ps where
          ps: "snd y = (tr @ [BlockFetch (sint mid)]) @ map (\<lambda>p. BlockFetch (sint p)) ps"
          and er: "\<forall>p e. p \<in> set ps \<and> g p = Inl e \<longrightarrow>
            fst y = Err (''error getting block '' @ decimal (sint p) @ '': '' @ e) \<and> last ps = p"
          by blast
        show ?thesis using ps er Inr by (intro exI [of _ "mid # ps"]) auto
      next
        case 3
        with run True Inr have "loop g T low (mid - 1) (tr @ [BlockFetch (sint mid)]) = Some y"
          by (simp add: mid_def [symmetric] Let_def)
        from ih [OF this] obtain ps where
          ps: "snd y = (tr @ [BlockFetch (sint mid)]) @ map (\<lambda>p. BlockFetch (sint p)) ps"
          and er: "\<forall>p e. p \<in> set ps \<and> g p = Inl e \<longrightarrow>
            fst y = Err (''error getting block '' @ decimal (sint p) @ '': '' @ e) \<and> last ps = p"
          by blast
        show ?thesis using ps er Inr by (intro exI [of _ "mid # ps"]) auto
      qed
      qed
    qed
  qed
qed

subsection \<open>Ledgers and the common search\<close>

lemma decodeNibbles_nonneg: "decodeNibbles acc cs = Inr t \<Longrightarrow> 0 \<le> t"
  by (induction cs arbitrary: acc) (auto split: option.splits)

lemma DecodeBig_nonneg: "DecodeBig s = Inr t \<Longrightarrow> 0 \<le> t"
  by (auto simp: DecodeBig_def split: sum.splits if_splits dest: decodeNibbles_nonneg)

lemma rpc_ledger_probe:
  assumes "rpc_ledger c H ts" "h \<in> {1..H}"
  shows "rpc_probe (eth_getBlockByNumber c) h = PTs (ts h)"
proof -
  from assms obtain s where s: "eth_getBlockByNumber c h = Inr s" "DecodeBig s = Inr (ts h)" "ts h < 2 ^ 63"
    unfolding rpc_ledger_def by (fastforce split: sum.splits)
  then have "0 \<le> ts h" using DecodeBig_nonneg by blast
  then have "sint (Int64 (ts h)) = ts h"
    using s(3) by (simp add: Int64_def sint_of_int_nowrap)
  then show ?thesis using s by (simp add: rpc_probe_def)
qed

lemma arweave_ledger_probe:
  assumes "arweave_ledger c H ts" "h \<in> {1..H}"
  shows "ar_probe (GetBlockByHeight c) h = PTs (ts h)"
  using assms unfolding arweave_ledger_def ar_probe_def
  by (auto simp: sint_of_int_nowrap)

lemma locate_boundary:
  assumes "1 \<le> H" "\<forall>x\<in>{1..H}. f x = PTs (ts x)"
    and "\<forall>x\<in>{1..H}. \<forall>y\<in>{1..H}. x \<le> y \<longrightarrow> ts x \<le> ts y"
  shows "\<exists>r ps. locate f T 1 H [HeadFetch] = (Ok r, HeadFetch # map BlockFetch ps) \<and>
           set ps \<subseteq> {1..H} \<and> boundary ts H T ps r \<and> 1 \<le> r \<and> r \<le> H + 1 \<and> (r \<le> H \<longrightarrow> T \<le> ts r)"
proof -
  from locate_correct [of 1 H H f ts T "[HeadFetch]"] assms
  obtain r ps where eq: "locate f T 1 H [HeadFetch] = (Ok r, [HeadFetch] @ map BlockFetch ps)"
    and sub: "set ps \<subseteq> {1..H}"
    and res: "if \<exists>p\<in>set ps. ts p = T then ts r = T \<and> r = last ps
            else 1 \<le> r \<and> r \<le> H + 1 \<and> (\<forall>x\<in>{1..H}. x < r \<longrightarrow> ts x < T) \<and>
                 (\<forall>x\<in>{1..H}. r \<le> x \<longrightarrow> T < ts x)"
    by auto
  have b: "boundary ts H T ps r" using res unfolding boundary_def by (auto split: if_splits)
  have rng: "1 \<le> r \<and> r \<le> H + 1 \<and> (r \<le> H \<longrightarrow> T \<le> ts r)"
  proof (cases "\<exists>p\<in>set ps. ts p = T")
    case True
    then have "ps \<noteq> []" by auto
    then have "last ps \<in> set ps" by simp
    then have "last ps \<in> {1..H}" using sub by blast
    then show ?thesis using res True by auto
  next
    case False
    then have r: "1 \<le> r" "r \<le> H + 1" "\<forall>x\<in>{1..H}. r \<le> x \<longrightarrow> T < ts x" using res by auto
    then have "r \<le> H \<longrightarrow> T < ts r" by auto
    then show ?thesis using r by auto
  qed
  show ?thesis using eq sub b rng by auto
qed

subsection \<open>Runs on the sample ledgers\<close>

lemma linear_rpc_ledger: "rpc_ledger linear_rpc 16 (\<lambda>h. 1000 + 100 * h)"
proof -
  have s: "{1..16::int} = {1, 2, 3, 4, 5, 6, 7, 8, 9, 10, 11, 12, 13, 14, 15, 16}" by auto arith
  have "\<forall>h\<in>{1..16::int}. (case eth_getBlockByNumber linear_rpc h of
                     Inl _ \<Rightarrow> False
                   | Inr s \<Rightarrow> DecodeBig s = Inr (1000 + 100 * h)) \<and> 1000 + 100 * h < (2 ^ 63 :: int)"
    unfolding s by (simp add: linear_rpc_def DecodeBig_def checkNumber_def decodeNibble_def)
  then show ?thesis unfolding rpc_ledger_def by (simp add: linear_rpc_def)
qed

lemma linear_arweave_ledger: "arweave_ledger (linear_arweave 16) 16 (\<lambda>h. 1000 + 100 * h)"
proof -
  have "GetBlockByHeight (linear_arweave 16) (word_of_int h) = Inr (Some (word_of_int (1000 + 100 * h)))"
    if "h \<in> {1..16}" for h
  proof -
    have "sint (word_of_int h :: int64) = h" using that by (simp add: sint_of_int_nowrap)
    then show ?thesis using that by (simp add: linear_arweave_def word_sle_eq)
  qed
  then show ?thesis unfolding arweave_ledger_def by (simp add: linear_arweave_def)
qed

lemma linear_rpc_run:
  "findClosestBlockRPC linear_rpc 1550 =
     (Ok 6, [HeadFetch, BlockFetch 8, BlockFetch 4, BlockFetch 6, BlockFetch 5])"
  by (simp add: findClosestBlockRPC_def linear_rpc_def rpc_loop_probe rpc_loop_done
      DecodeBig_def checkNumber_def decodeNibble_def Int64_def word_sless_alt)

lemma linear_arweave_run:
  "findClosestBlockArweave (linear_arweave 16) 1550 =
     Some (Ok 6, [HeadFetch, BlockFetch 8, BlockFetch 4, BlockFetch 6, BlockFetch 5])"
  by (simp add: findClosestBlockArweave_def linear_arweave_def arweave_loop_probe arweave_loop_done
      quo64_def signed_divide_int_def word_sle_eq word_sless_alt)

lemma wide_rpc_run:
  "findClosestBlockRPC wide_rpc 1 = (Ok 2, [HeadFetch, BlockFetch 1, BlockFetch 2])"
  by (simp add: findClosestBlockRPC_def wide_rpc_def rpc_loop_probe rpc_loop_done
      DecodeBig_def checkNumber_def decodeNibble_def Int64_def word_sless_alt)

lemma late_arweave_run:
  "map_option fst (findClosestBlockArweave late_arweave 1) =
     Some (Err ''error getting block -4611686018427387904: block not found'')"
  by (simp add: findClosestBlockArweave_def late_arweave_def arweave_loop_probe arweave_loop_done
      quo64_def signed_divide_int_def word_sle_eq word_sless_alt
      decimal_def decimal_nat_digit decimal_nat_more digit_char_def)

lemma rpc_search_boundary:
  assumes L: "rpc_ledger c H ts"
  shows "\<exists>r ps. findClosestBlockRPC c T = (Ok r, HeadFetch # map BlockFetch ps) \<and>
           set ps \<subseteq> {1..H} \<and> boundary ts H (sint T) ps r \<and> 1 \<le> r \<and> r \<le> H + 1 \<and>
           (r \<le> H \<longrightarrow> sint T \<le> ts r)"
proof -
  from L have H: "eth_blockNumber c = Inr H" "1 \<le> H"
    and mono: "\<forall>x\<in>{1..H}. \<forall>y\<in>{1..H}. x \<le> y \<longrightarrow> ts x \<le> ts y"
    unfolding rpc_ledger_def by auto
  have pr: "\<forall>x\<in>{1..H}. rpc_probe (eth_getBlockByNumber c) x = PTs (ts x)"
    using rpc_ledger_probe [OF L] by blast
  from locate_boundary [OF H(2) pr mono, of "sint T"]
  show ?thesis using H by (auto simp: findClosestBlockRPC_def rpc_loop_locate)
qed

lemma arweave_search_boundary:
  assumes L: "arweave_ledger c H ts"
  shows "\<exists>r ps. findClosestBlockArweave c T = Some (Ok r, HeadFetch # map BlockFetch ps) \<and>
           set ps \<subseteq> {1..H} \<and> boundary ts H (sint T) ps (sint r) \<and> 1 \<le> sint r \<and>
           sint r \<le> H + 1 \<and> (sint r \<le> H \<longrightarrow> sint T \<le> ts (sint r))"
proof -
  from L have H: "GetBlockHeight c = Inr (word_of_int H)" "1 \<le> H" "H < 2 ^ 62"
    and mono: "\<forall>x\<in>{1..H}. \<forall>y\<in>{1..H}. x \<le> y \<longrightarrow> ts x \<le> ts y"
    unfolding arweave_ledger_def by auto
  have sH: "sint (word_of_int H :: int64) = H" using H by (simp add: sint_of_int_nowrap)
  have pr: "\<forall>x\<in>{1..H}. ar_probe (GetBlockByHeight c) x = PTs (ts x)"
    using arweave_ledger_probe [OF L] by blast
  from locate_boundary [OF H(2) pr mono, of "sint T"]
  obtain r ps where eq: "locate (ar_probe (GetBlockByHeight c)) (sint T) 1 H [HeadFetch] = (Ok r, HeadFetch # map BlockFetch ps)"
    and rest: "set ps \<subseteq> {1..H}" "boundary ts H (sint T) ps r" "1 \<le> r" "r \<le> H + 1" "r \<le> H \<longrightarrow> sint T \<le> ts r"
    by blast
  have sr: "sint (word_of_int r :: int64) = r" using rest H by (simp add: sint_of_int_nowrap)
  have "arweave_loop (GetBlockByHeight c) T 1 (word_of_int H) [HeadFetch] =
      Some (to_int64 (locate (ar_probe (GetBlockByHeight c)) (sint T) (sint (1 :: int64)) (sint (word_of_int H :: int64)) [HeadFetch]))"
    using H sH by (intro arweave_loop_locate) auto
  then have "findClosestBlockArweave c T = Some (Ok (word_of_int r), HeadFetch # map BlockFetch ps)"
    using H sH eq by (simp add: findClosestBlockArweave_def)
  then show ?thesis
    using rest sr by (intro exI [of _ "word_of_int r"] exI [of _ ps]) simp
qed

lemma boundary_beyond:
  assumes "boundary ts H T ps r" "set ps \<subseteq> {1..H}" "1 \<le> H" "r \<le> H + 1" "\<forall>h\<in>{1..H}. ts h < T"
  shows "r = H + 1"
proof -
  have "\<not> (\<exists>p\<in>set ps. ts p = T)" using assms(2,5) by fastforce
  then have "\<forall>x\<in>{1..H}. r \<le> x \<longrightarrow> T < ts x" using assms(1) unfolding boundary_def by simp
  moreover have "H \<in> {1..H}" using assms(3) by simp
  moreover from this have "ts H < T" using assms(5) by blast
  ultimately have "\<not> r \<le> H" by fastforce
  then show ?thesis using assms(4) by simp
qed

lemma floorlog_le_ceillog2: "0 < n \<Longrightarrow> floorlog 2 n \<le> ceillog2 n + 1"
proof -
  assume n: "0 < n"
  have "\<lfloor>log 2 (real n)\<rfloor> \<le> \<lceil>log 2 (real n)\<rceil>" by linarith
  then have "nat \<lfloor>log 2 (real n)\<rfloor> \<le> nat \<lceil>log 2 (real n)\<rceil>" by linarith
  then show ?thesis using n by (simp add: floorlog_def ceillog2_def)
qed

lemma locate_fetches:
  assumes "1 \<le> H"
  shows "\<exists>ps. snd (locate f T 1 H [HeadFetch]) = HeadFetch # map BlockFetch ps \<and>
           length ps \<le> ceillog2 (nat H) + 1"
proof -
  have "nat H < 2 ^ floorlog 2 (nat H)" using floorlog_bounds [of "nat H" 2] assms by simp
  then have "H < 2 ^ floorlog 2 (nat H)"
    using assms by (metis nat_less_iff of_nat_numeral of_nat_power zero_le_one order_trans)
  then have "H + 1 - 1 < 2 ^ floorlog 2 (nat H)" by simp
  from locate_trace [OF this, of f T "[HeadFetch]"]
  obtain ps where "snd (locate f T 1 H [HeadFetch]) = [HeadFetch] @ map BlockFetch ps"
    "length ps \<le> floorlog 2 (nat H)" by blast
  moreover have "floorlog 2 (nat H) \<le> ceillog2 (nat H) + 1"
    using assms by (intro floorlog_le_ceillog2) simp
  ultimately show ?thesis by (intro exI [of _ ps]) simp
qed

lemma snd_to_int64: "snd (to_int64 x) = snd x"
  by (cases x rule: to_int64.cases) simp_all

lemma frozen_arweave_never_returns:
  assumes "arweave_loop g T low high tr = Some y"
  shows "\<not> (g = (\<lambda>h. Inr (Some 0)) \<and> T = 1 \<and> high = 9223372036854775807)"
  using assms
proof (induct rule: arweave_loop.raw_induct [rotated 1, consumes 1, case_names step])
  case (step loop g T low high tr y)
  show ?case
  proof
    assume a: "g = (\<lambda>h. Inr (Some 0)) \<and> T = 1 \<and> high = 9223372036854775807"
    have "sint low < 2 ^ 63" using sint_less [of low] by simp
    then have le: "low \<le>s high" using a by (simp add: word_sle_eq)
    have lt: "(0 :: int64) <s 1" by (simp add: word_sless_alt)
    from step(2) le a lt
    have "loop g T (quo64 (low + high) 2 + 1) high (tr @ [BlockFetch (sint (quo64 (low + high) 2))]) = Some y"
      by (simp add: Let_def)
    from step(1) [OF this] a show False by blast
  qed
qed

lemma rpc_probe_PErr: "rpc_probe g p = PErr e \<longleftrightarrow> g p = Inl e"
  by (auto simp: rpc_probe_def split: sum.splits)

lemma rpc_search_errors:
  "\<exists>ps. snd (findClosestBlockRPC c T) = HeadFetch # map BlockFetch ps \<and>
     (\<forall>p e. p \<in> set ps \<and> eth_getBlockByNumber c p = Inl e \<longrightarrow>
        fst (findClosestBlockRPC c T) = Err (''error getting block '' @ decimal p @ '': '' @ e) \<and>
        last ps = p)"
proof (cases "eth_blockNumber c")
  case (Inl e)
  then have "findClosestBlockRPC c T = (Err (''error getting latest block number: '' @ e), HeadFetch # map BlockFetch [])"
    by (simp add: findClosestBlockRPC_def)
  then show ?thesis by (intro exI [of _ "[]"]) simp
next
  case (Inr H)
  then have eq: "findClosestBlockRPC c T = locate (rpc_probe (eth_getBlockByNumber c)) (sint T) 1 H [HeadFetch]"
    by (simp add: findClosestBlockRPC_def rpc_loop_locate)
  from locate_errors [of "rpc_probe (eth_getBlockByNumber c)" "sint T" 1 H "[HeadFetch]"]
  show ?thesis unfolding eq by (simp add: rpc_probe_PErr)
qed

lemma arweave_search_errors:
  assumes "findClosestBlockArweave c T = Some y"
  shows "\<exists>ps. snd y = HeadFetch # map (\<lambda>p. BlockFetch (sint p)) ps \<and>
     (\<forall>p e. p \<in> set ps \<and> GetBlockByHeight c p = Inl e \<longrightarrow>
        fst y = Err (''error getting block '' @ decimal (sint p) @ '': '' @ e) \<and> last ps = p)"
proof (cases "GetBlockHeight c")
  case (Inl e)
  with assms have "y = (Err (''error getting latest block height: '' @ e), [HeadFetch])"
    by (simp add: findClosestBlockArweave_def)
  then show ?thesis by (intro exI [of _ "[]"]) simp
next
  case (Inr H)
  with assms have "arweave_loop (GetBlockByHeight c) T 1 H [HeadFetch] = Some y"
    by (simp add: findClosestBlockArweave_def)
  from arweave_loop_errors [OF this] show ?thesis by simp
qed

lemma flaky_rpc_run:
  "findClosestBlockRPC flaky_rpc 1717200000 =
     (Err ''error getting block 3: timeout'', [HeadFetch, BlockFetch 2, BlockFetch 3])"
  by (simp add: findClosestBlockRPC_def flaky_rpc_def rpc_loop_probe rpc_loop_done
      DecodeBig_def checkNumber_def decodeNibble_def Int64_def word_sless_alt
      decimal_def decimal_nat_digit decimal_nat_more digit_char_def)

lemma flaky_arweave_run:
  "findClosestBlockArweave flaky_arweave 1717200000 =
     Some (Err ''error getting block 3: timeout'', [HeadFetch, BlockFetch 2, BlockFetch 3])"
  by (simp add: findClosestBlockArweave_def flaky_arweave_def arweave_loop_probe arweave_loop_done
      quo64_def signed_divide_int_def word_sle_eq word_sless_alt
      decimal_def decimal_nat_digit decimal_nat_more digit_char_def)

lemma arweave_reaches_loop:
  "arweave_reaches g T H low high tr \<Longrightarrow>
   arweave_loop g T 1 H [HeadFetch] = arweave_loop g T low high tr"
proof (induction rule: arweave_reaches.induct)
  case start
  show ?case by simp
next
  case (right low high tr timestamp)
  then show ?case by (simp add: arweave_loop_probe [of low high])
next
  case (left low high tr timestamp)
  then show ?case by (simp add: arweave_loop_probe [of low high])
qed

lemma arweave_reaches_trace:
  "arweave_reaches g T H low high tr \<Longrightarrow>
   \<exists>ps. tr = HeadFetch # map (\<lambda>p. BlockFetch (sint p)) ps \<and>
     (\<forall>p\<in>set ps. \<exists>t. g p = Inr (Some t) \<and> t \<noteq> T)"
proof (induction rule: arweave_reaches.induct)
  case start
  show ?case by simp
next
  case (right low high tr timestamp)
  then obtain ps where "tr = HeadFetch # map (\<lambda>p. BlockFetch (sint p)) ps"
    "\<forall>p\<in>set ps. \<exists>t. g p = Inr (Some t) \<and> t \<noteq> T" by blast
  with right show ?case by (intro exI [of _ "ps @ [quo64 (low + high) 2]"]) auto
next
  case (left low high tr timestamp)
  then obtain ps where "tr = HeadFetch # map (\<lambda>p. BlockFetch (sint p)) ps"
    "\<forall>p\<in>set ps. \<exists>t. g p = Inr (Some t) \<and> t \<noteq> T" by blast
  with left show ?case by (intro exI [of _ "ps @ [quo64 (low + high) 2]"]) auto
qed

lemma arweave_failure_returns:
  assumes "GetBlockHeight c = Inr H" "arweave_reaches (GetBlockByHeight c) T H low high tr"
    "low \<le>s high" "GetBlockByHeight c (quo64 (low + high) 2) = Inl e"
  shows "findClosestBlockArweave c T =
    Some (Err (''error getting block '' @ decimal (sint (quo64 (low + high) 2)) @ '': '' @ e),
          tr @ [BlockFetch (sint (quo64 (low + high) 2))])"
proof -
  have "findClosestBlockArweave c T = arweave_loop (GetBlockByHeight c) T low high tr"
    using assms(1) arweave_reaches_loop [OF assms(2)] by (simp add: findClosestBlockArweave_def)
  then show ?thesis using assms(3,4) by (simp add: arweave_loop_probe [of low high])
qed

lemma flaky_arweave_reaches:
  "arweave_reaches (GetBlockByHeight flaky_arweave) 1717200000 3 3 3 [HeadFetch, BlockFetch 2]"
proof -
  have q: "quo64 4 2 = 2" by (simp add: quo64_def signed_divide_int_def)
  have "arweave_reaches (GetBlockByHeight flaky_arweave) 1717200000 3 1 3 [HeadFetch]"
    by (rule arweave_reaches.start)
  from arweave_reaches.right [OF this, of 1] show ?thesis
    by (simp add: q flaky_arweave_def word_sle_eq word_sless_alt)
qed

section \<open>The claims\<close>

text \<open>
  Claim C1, as amended. On a ledger of \<open>H \<ge> 1\<close> blocks with non-decreasing timestamps,
  \<^verbatim>\<open>findClosestBlockRPC\<close> (timestamp fields decodable and below \<open>2^63\<close>) and
  \<^verbatim>\<open>findClosestBlockArweave\<close> (\<open>H < 2^62\<close>) return a height after one head fetch
  and probes within \<open>1..H\<close>. If a probe hit the target exactly, the result is that
  probe; otherwise it is the smallest height whose timestamp is at least the target, or
  \<open>H + 1\<close> when every timestamp is below the target. The result is never a height
  whose timestamp is below the target.
\<close>

theorem closest_block_is_right_boundary:
  "(rpc_ledger c H ts \<longrightarrow>
      (\<exists>r ps. findClosestBlockRPC c T = (Ok r, HeadFetch # map BlockFetch ps) \<and>
         set ps \<subseteq> {1..H} \<and> boundary ts H (sint T) ps r \<and> (r \<le> H \<longrightarrow> sint T \<le> ts r))) \<and>
   (arweave_ledger c' H' ts' \<longrightarrow>
      (\<exists>r ps. findClosestBlockArweave c' T = Some (Ok r, HeadFetch # map BlockFetch ps) \<and>
         set ps \<subseteq> {1..H'} \<and> boundary ts' H' (sint T) ps (sint r) \<and>
         (sint r \<le> H' \<longrightarrow> sint T \<le> ts' (sint r))))"
proof (intro conjI impI)
  assume "rpc_ledger c H ts"
  from rpc_search_boundary [OF this, of T]
  show "\<exists>r ps. findClosestBlockRPC c T = (Ok r, HeadFetch # map BlockFetch ps) \<and>
         set ps \<subseteq> {1..H} \<and> boundary ts H (sint T) ps r \<and> (r \<le> H \<longrightarrow> sint T \<le> ts r)"
    by blast
next
  assume "arweave_ledger c' H' ts'"
  from arweave_search_boundary [OF this, of T]
  show "\<exists>r ps. findClosestBlockArweave c' T = Some (Ok r, HeadFetch # map BlockFetch ps) \<and>
         set ps \<subseteq> {1..H'} \<and> boundary ts' H' (sint T) ps (sint r) \<and>
         (sint r \<le> H' \<longrightarrow> sint T \<le> ts' (sint r))"
    by blast
qed

theorem closest_block_is_right_boundary_witness:
  "rpc_ledger linear_rpc 16 (\<lambda>h. 1000 + 100 * h) \<and>
   arweave_ledger (linear_arweave 16) 16 (\<lambda>h. 1000 + 100 * h) \<and>
   findClosestBlockRPC linear_rpc 1550 =
     (Ok 6, [HeadFetch, BlockFetch 8, BlockFetch 4, BlockFetch 6, BlockFetch 5]) \<and>
   findClosestBlockArweave (linear_arweave 16) 1550 =
     Some (Ok 6, [HeadFetch, BlockFetch 8, BlockFetch 4, BlockFetch 6, BlockFetch 5]) \<and>
   boundary (\<lambda>h. 1000 + 100 * h) 16 1550 [8, 4, 6, 5] 6"
proof -
  have s: "sint (1550 :: int64) = 1550" by simp
  from closest_block_is_right_boundary
    [of linear_rpc 16 "\<lambda>h. 1000 + 100 * h" 1550 "linear_arweave 16" 16 "\<lambda>h. 1000 + 100 * h"]
    linear_rpc_ledger
  obtain r ps where "findClosestBlockRPC linear_rpc 1550 = (Ok r, HeadFetch # map BlockFetch ps)"
    and b: "boundary (\<lambda>h. 1000 + 100 * h) 16 (sint (1550 :: int64)) ps r"
    by blast
  then have "r = 6" "ps = [8, 4, 6, 5]"
    using linear_rpc_run by (auto simp: map_eq_Cons_conv)
  with b s have "boundary (\<lambda>h. 1000 + 100 * h) 16 1550 [8, 4, 6, 5] 6" by simp
  then show ?thesis
    using linear_rpc_ledger linear_arweave_ledger linear_rpc_run linear_arweave_run by simp
qed

theorem closest_block_is_right_boundary_counterexample:
  "GetBlockHeight late_arweave = Inr 4611686018427387904 \<and>
   GetBlockByHeight late_arweave 4611686018427387903 = Inr (Some 0) \<and>
   GetBlockByHeight late_arweave 4611686018427387904 = Inr (Some 5) \<and>
   map_option fst (findClosestBlockArweave late_arweave 1) =
     Some (Err ''error getting block -4611686018427387904: block not found'') \<and>
   eth_blockNumber wide_rpc = Inr 2 \<and>
   map_sum id DecodeBig (eth_getBlockByNumber wide_rpc 1) = Inr (Inr 18446744073709551616) \<and>
   map_sum id DecodeBig (eth_getBlockByNumber wide_rpc 2) = Inr (Inr 18446744073709551617) \<and>
   findClosestBlockRPC wide_rpc 1 = (Ok 2, [HeadFetch, BlockFetch 1, BlockFetch 2])"
proof -
  have "GetBlockHeight late_arweave = Inr 4611686018427387904"
    "GetBlockByHeight late_arweave 4611686018427387903 = Inr (Some 0)"
    "GetBlockByHeight late_arweave 4611686018427387904 = Inr (Some 5)"
    by (simp_all add: late_arweave_def word_sle_eq)
  moreover have "eth_blockNumber wide_rpc = Inr 2"
    "map_sum id DecodeBig (eth_getBlockByNumber wide_rpc 1) = Inr (Inr 18446744073709551616)"
    "map_sum id DecodeBig (eth_getBlockByNumber wide_rpc 2) = Inr (Inr 18446744073709551617)"
    by (simp_all add: wide_rpc_def DecodeBig_def checkNumber_def decodeNibble_def)
  ultimately show ?thesis using late_arweave_run wide_rpc_run by blast
qed

text \<open>
  Claim C2, as amended. On a ledger with non-decreasing timestamps that are all below
  the target, the search ends with \<open>low = H + 1\<close> and returns \<open>H + 1\<close>, a height
  outside the searched range: \<^verbatim>\<open>findClosestBlockArweave\<close> for \<open>1 \<le> H < 2^62\<close>,
  \<^verbatim>\<open>findClosestBlockRPC\<close> for every \<open>H \<ge> 1\<close> with decodable timestamps below
  \<open>2^63\<close>. (The sample is the fixture of ten blocks with linear timestamps.)
\<close>

theorem target_beyond_head_returns_next_height:
  "(rpc_ledger c H ts \<and> (\<forall>h\<in>{1..H}. ts h < sint T) \<longrightarrow>
      (\<exists>ps. findClosestBlockRPC c T = (Ok (H + 1), HeadFetch # map BlockFetch ps))) \<and>
   (arweave_ledger c' H' ts' \<and> (\<forall>h\<in>{1..H'}. ts' h < sint T) \<longrightarrow>
      (\<exists>r ps. findClosestBlockArweave c' T = Some (Ok r, HeadFetch # map BlockFetch ps) \<and>
         sint r = H' + 1))"
proof (intro conjI impI)
  assume a: "rpc_ledger c H ts \<and> (\<forall>h\<in>{1..H}. ts h < sint T)"
  then have "1 \<le> H" unfolding rpc_ledger_def by simp
  from rpc_search_boundary [of c H ts T] a obtain r ps where
    r: "findClosestBlockRPC c T = (Ok r, HeadFetch # map BlockFetch ps)" "set ps \<subseteq> {1..H}"
      "boundary ts H (sint T) ps r" "r \<le> H + 1" by blast
  from boundary_beyond [OF r(3) r(2) \<open>1 \<le> H\<close> r(4)] a have "r = H + 1" by blast
  with r(1) show "\<exists>ps. findClosestBlockRPC c T = (Ok (H + 1), HeadFetch # map BlockFetch ps)" by blast
next
  assume a: "arweave_ledger c' H' ts' \<and> (\<forall>h\<in>{1..H'}. ts' h < sint T)"
  then have "1 \<le> H'" unfolding arweave_ledger_def by simp
  from arweave_search_boundary [of c' H' ts' T] a obtain r ps where
    r: "findClosestBlockArweave c' T = Some (Ok r, HeadFetch # map BlockFetch ps)" "set ps \<subseteq> {1..H'}"
      "boundary ts' H' (sint T) ps (sint r)" "sint r \<le> H' + 1" by blast
  from boundary_beyond [OF r(3) r(2) \<open>1 \<le> H'\<close> r(4)] a have "sint r = H' + 1" by blast
  with r(1) show "\<exists>r ps. findClosestBlockArweave c' T = Some (Ok r, HeadFetch # map BlockFetch ps) \<and>
         sint r = H' + 1" by blast
qed

lemma linear_arweave_ledger10: "arweave_ledger (linear_arweave 10) 10 (\<lambda>h. 1000 + 100 * h)"
proof -
  have "GetBlockByHeight (linear_arweave 10) (word_of_int h) = Inr (Some (word_of_int (1000 + 100 * h)))"
    if "h \<in> {1..10}" for h
  proof -
    have "sint (word_of_int h :: int64) = h" using that by (simp add: sint_of_int_nowrap)
    then show ?thesis using that by (simp add: linear_arweave_def word_sle_eq)
  qed
  then show ?thesis unfolding arweave_ledger_def by (simp add: linear_arweave_def)
qed

lemma linear_arweave_run_beyond:
  "findClosestBlockArweave (linear_arweave 10) 5000 =
     Some (Ok 11, [HeadFetch, BlockFetch 5, BlockFetch 8, BlockFetch 9, BlockFetch 10])"
  by (simp add: findClosestBlockArweave_def linear_arweave_def arweave_loop_probe arweave_loop_done
      quo64_def signed_divide_int_def word_sle_eq word_sless_alt)

lemma linear_rpc_run_beyond:
  "findClosestBlockRPC linear_rpc 5000 =
     (Ok 17, [HeadFetch, BlockFetch 8, BlockFetch 12, BlockFetch 14, BlockFetch 15, BlockFetch 16])"
  by (simp add: findClosestBlockRPC_def linear_rpc_def rpc_loop_probe rpc_loop_done
      DecodeBig_def checkNumber_def decodeNibble_def Int64_def word_sless_alt)

theorem target_beyond_head_returns_next_height_witness:
  "rpc_ledger linear_rpc 16 (\<lambda>h. 1000 + 100 * h) \<and>
   1000 + 100 * 16 < sint (5000 :: int64) \<and>
   arweave_ledger (linear_arweave 10) 10 (\<lambda>h. 1000 + 100 * h) \<and>
   1000 + 100 * 10 < sint (5000 :: int64) \<and>
   (\<exists>ps. findClosestBlockRPC linear_rpc 5000 = (Ok (16 + 1), HeadFetch # map BlockFetch ps)) \<and>
   (\<exists>r ps. findClosestBlockArweave (linear_arweave 10) 5000 =
      Some (Ok r, HeadFetch # map BlockFetch ps) \<and> sint r = 10 + 1) \<and>
   findClosestBlockArweave (linear_arweave 10) 5000 =
     Some (Ok 11, [HeadFetch, BlockFetch 5, BlockFetch 8, BlockFetch 9, BlockFetch 10])"
proof -
  have a: "\<forall>h\<in>{1..16}. 1000 + 100 * h < sint (5000 :: int64)"
    and b: "\<forall>h\<in>{1..10}. 1000 + 100 * h < sint (5000 :: int64)" by simp_all
  from target_beyond_head_returns_next_height
    [of linear_rpc 16 "\<lambda>h. 1000 + 100 * h" 5000 "linear_arweave 10" 10 "\<lambda>h. 1000 + 100 * h"]
    linear_rpc_ledger linear_arweave_ledger10 a b
  have "(\<exists>ps. findClosestBlockRPC linear_rpc 5000 = (Ok (16 + 1), HeadFetch # map BlockFetch ps)) \<and>
   (\<exists>r ps. findClosestBlockArweave (linear_arweave 10) 5000 =
      Some (Ok r, HeadFetch # map BlockFetch ps) \<and> sint r = 10 + 1)"
    by blast
  moreover have "1000 + 100 * 16 < sint (5000 :: int64)" "1000 + 100 * 10 < sint (5000 :: int64)"
    by simp_all
  ultimately show ?thesis
    using linear_rpc_ledger linear_arweave_ledger10 linear_arweave_run_beyond by blast
qed

lemma stale_arweave_run:
  "map_option fst (findClosestBlockArweave stale_arweave 1) =
     Some (Err ''error getting block -4611686018427387904: block not found'')"
  by (simp add: findClosestBlockArweave_def stale_arweave_def arweave_loop_probe arweave_loop_done
      quo64_def signed_divide_int_def word_sle_eq word_sless_alt
      decimal_def decimal_nat_digit decimal_nat_more digit_char_def)

theorem target_beyond_head_returns_next_height_counterexample:
  "GetBlockHeight stale_arweave = Inr 4611686018427387904 \<and>
   GetBlockByHeight stale_arweave 1 = Inr (Some 0) \<and>
   GetBlockByHeight stale_arweave 4611686018427387904 = Inr (Some 0) \<and>
   map_option fst (findClosestBlockArweave stale_arweave 1) =
     Some (Err ''error getting block -4611686018427387904: block not found'')"
proof -
  have "GetBlockHeight stale_arweave = Inr 4611686018427387904"
    "GetBlockByHeight stale_arweave 1 = Inr (Some 0)"
    "GetBlockByHeight stale_arweave 4611686018427387904 = Inr (Some 0)"
    by (simp_all add: stale_arweave_def word_sle_eq)
  then show ?thesis using stale_arweave_run by blast
qed

text \<open>
  Claim C3, as amended. \<^verbatim>\<open>findClosestBlockRPC\<close> ends for every head height
  \<open>H \<ge> 1\<close> and every target, whatever the client answers, and
  \<^verbatim>\<open>findClosestBlockArweave\<close> ends for every head height \<open>1 \<le> H < 2^62\<close>. Each run
  makes exactly one head-height fetch followed by at most \<open>\<lceil>log\<^sub>2 H\<rceil> + 1\<close> timestamp
  fetches. (\<open>rpc_loop\<close> is a total function; for the Arweave loop the result is
  \<open>Some\<close>.) With \<open>H = 2^63 - 1\<close> and a client that answers every height below the
  target, the Arweave loop never ends.
\<close>

theorem search_terminates_within_fetch_bound:
  "(eth_blockNumber c = Inr H \<and> 1 \<le> H \<longrightarrow>
      (\<exists>ps. snd (findClosestBlockRPC c T) = HeadFetch # map BlockFetch ps \<and>
         length ps \<le> ceillog2 (nat H) + 1)) \<and>
   (GetBlockHeight c' = Inr H' \<and> 1 \<le> sint H' \<and> sint H' < 2 ^ 62 \<longrightarrow>
      (\<exists>res ps. findClosestBlockArweave c' T = Some (res, HeadFetch # map BlockFetch ps) \<and>
         length ps \<le> ceillog2 (nat (sint H')) + 1))"
proof (intro conjI impI)
  assume a: "eth_blockNumber c = Inr H \<and> 1 \<le> H"
  then have "findClosestBlockRPC c T = locate (rpc_probe (eth_getBlockByNumber c)) (sint T) 1 H [HeadFetch]"
    by (simp add: findClosestBlockRPC_def rpc_loop_locate)
  with locate_fetches [of H "rpc_probe (eth_getBlockByNumber c)" "sint T"] a
  show "\<exists>ps. snd (findClosestBlockRPC c T) = HeadFetch # map BlockFetch ps \<and>
         length ps \<le> ceillog2 (nat H) + 1" by simp
next
  assume a: "GetBlockHeight c' = Inr H' \<and> 1 \<le> sint H' \<and> sint H' < 2 ^ 62"
  have "arweave_loop (GetBlockByHeight c') T 1 H' [HeadFetch] =
      Some (to_int64 (locate (ar_probe (GetBlockByHeight c')) (sint T) (sint (1 :: int64)) (sint H') [HeadFetch]))"
    using a by (intro arweave_loop_locate) auto
  then have eq: "findClosestBlockArweave c' T =
      Some (to_int64 (locate (ar_probe (GetBlockByHeight c')) (sint T) 1 (sint H') [HeadFetch]))"
    using a by (simp add: findClosestBlockArweave_def)
  from locate_fetches [of "sint H'" "ar_probe (GetBlockByHeight c')" "sint T"] a
  obtain ps where ps: "snd (locate (ar_probe (GetBlockByHeight c')) (sint T) 1 (sint H') [HeadFetch]) = HeadFetch # map BlockFetch ps"
    "length ps \<le> ceillog2 (nat (sint H')) + 1" by blast
  obtain res tr where rt: "to_int64 (locate (ar_probe (GetBlockByHeight c')) (sint T) 1 (sint H') [HeadFetch]) = (res, tr)"
    by (cases "to_int64 (locate (ar_probe (GetBlockByHeight c')) (sint T) 1 (sint H') [HeadFetch])")
  then have "tr = HeadFetch # map BlockFetch ps" using ps(1) snd_to_int64 by (metis snd_conv)
  with eq rt ps(2)
  show "\<exists>res ps. findClosestBlockArweave c' T = Some (res, HeadFetch # map BlockFetch ps) \<and>
         length ps \<le> ceillog2 (nat (sint H')) + 1" by auto
qed

theorem search_terminates_within_fetch_bound_witness:
  "eth_blockNumber linear_rpc = Inr 16 \<and> (1 :: int) \<le> 16 \<and>
   GetBlockHeight (linear_arweave 16) = Inr 16 \<and> 1 \<le> sint (16 :: int64) \<and>
   sint (16 :: int64) < 2 ^ 62 \<and>
   (\<exists>ps. snd (findClosestBlockRPC linear_rpc 1550) = HeadFetch # map BlockFetch ps \<and>
      length ps \<le> ceillog2 (nat 16) + 1) \<and>
   (\<exists>res ps. findClosestBlockArweave (linear_arweave 16) 1550 =
      Some (res, HeadFetch # map BlockFetch ps) \<and>
      length ps \<le> ceillog2 (nat (sint (16 :: int64))) + 1)"
proof -
  have h: "eth_blockNumber linear_rpc = Inr 16 \<and> (1 :: int) \<le> 16"
    by (simp add: linear_rpc_def)
  have h': "GetBlockHeight (linear_arweave 16) = Inr 16 \<and> 1 \<le> sint (16 :: int64) \<and>
    sint (16 :: int64) < 2 ^ 62"
    by (simp add: linear_arweave_def)
  from search_terminates_within_fetch_bound [of linear_rpc 16 1550 "linear_arweave 16" 16] h h'
  show ?thesis by blast
qed

theorem search_terminates_within_fetch_bound_counterexample:
  "findClosestBlockArweave frozen_arweave 1 = None"
proof (cases "findClosestBlockArweave frozen_arweave 1")
  case None
  then show ?thesis .
next
  case (Some y)
  then have "arweave_loop (\<lambda>h. Inr (Some 0)) 1 1 9223372036854775807 [HeadFetch] = Some y"
    by (simp add: findClosestBlockArweave_def frozen_arweave_def)
  from frozen_arweave_never_returns [OF this] show ?thesis by simp
qed

text \<open>
  Claim C4. When the head-height fetch fails, the search returns an error after that one
  call. When the fetch at a probed height fails, that fetch is the last call of the run,
  the search returns an error and no height, and the message of the error holds the
  height in decimal. For \<^verbatim>\<open>findClosestBlockRPC\<close> this is said of the calls of its run.
  For \<^verbatim>\<open>findClosestBlockArweave\<close>, whose loop need not end, it is said of every state
  the run reaches: if the fetch at the height probed there fails, the search returns, with
  that error, after the calls made so far (all of them answered) and that fetch. In
  addition, whenever the Arweave search returns, a failed fetch among its calls is the
  last one and gives the error.
\<close>

theorem fetch_failure_aborts_search:
  "(\<forall>e. eth_blockNumber c = Inl e \<longrightarrow>
      findClosestBlockRPC c T = (Err (''error getting latest block number: '' @ e), [HeadFetch])) \<and>
   (\<exists>ps. snd (findClosestBlockRPC c T) = HeadFetch # map BlockFetch ps \<and>
      (\<forall>p e. p \<in> set ps \<and> eth_getBlockByNumber c p = Inl e \<longrightarrow>
         fst (findClosestBlockRPC c T) = Err (''error getting block '' @ decimal p @ '': '' @ e) \<and>
         last ps = p)) \<and>
   (\<forall>e. GetBlockHeight c' = Inl e \<longrightarrow>
      findClosestBlockArweave c' T =
        Some (Err (''error getting latest block height: '' @ e), [HeadFetch])) \<and>
   (\<forall>H low high tr e.
      GetBlockHeight c' = Inr H \<and> arweave_reaches (GetBlockByHeight c') T H low high tr \<and>
      low \<le>s high \<and> GetBlockByHeight c' (quo64 (low + high) 2) = Inl e \<longrightarrow>
      findClosestBlockArweave c' T =
        Some (Err (''error getting block '' @ decimal (sint (quo64 (low + high) 2)) @ '': '' @ e),
              tr @ [BlockFetch (sint (quo64 (low + high) 2))]) \<and>
      (\<exists>ps. tr = HeadFetch # map (\<lambda>p. BlockFetch (sint p)) ps \<and>
         (\<forall>p\<in>set ps. \<exists>t. GetBlockByHeight c' p = Inr (Some t) \<and> t \<noteq> T))) \<and>
   (\<forall>y. findClosestBlockArweave c' T = Some y \<longrightarrow>
      (\<exists>ps. snd y = HeadFetch # map (\<lambda>p. BlockFetch (sint p)) ps \<and>
         (\<forall>p e. p \<in> set ps \<and> GetBlockByHeight c' p = Inl e \<longrightarrow>
            fst y = Err (''error getting block '' @ decimal (sint p) @ '': '' @ e) \<and>
            last ps = p)))"
proof (intro conjI allI impI)
  fix e assume "eth_blockNumber c = Inl e"
  then show "findClosestBlockRPC c T = (Err (''error getting latest block number: '' @ e), [HeadFetch])"
    by (simp add: findClosestBlockRPC_def)
next
  show "\<exists>ps. snd (findClosestBlockRPC c T) = HeadFetch # map BlockFetch ps \<and>
      (\<forall>p e. p \<in> set ps \<and> eth_getBlockByNumber c p = Inl e \<longrightarrow>
         fst (findClosestBlockRPC c T) = Err (''error getting block '' @ decimal p @ '': '' @ e) \<and>
         last ps = p)"
    by (rule rpc_search_errors)
next
  fix e assume "GetBlockHeight c' = Inl e"
  then show "findClosestBlockArweave c' T =
        Some (Err (''error getting latest block height: '' @ e), [HeadFetch])"
    by (simp add: findClosestBlockArweave_def)
next
  fix H low high tr e
  assume a: "GetBlockHeight c' = Inr H \<and> arweave_reaches (GetBlockByHeight c') T H low high tr \<and>
      low \<le>s high \<and> GetBlockByHeight c' (quo64 (low + high) 2) = Inl e"
  then show "findClosestBlockArweave c' T =
        Some (Err (''error getting block '' @ decimal (sint (quo64 (low + high) 2)) @ '': '' @ e),
              tr @ [BlockFetch (sint (quo64 (low + high) 2))])"
    by (intro arweave_failure_returns) auto
  from a show "\<exists>ps. tr = HeadFetch # map (\<lambda>p. BlockFetch (sint p)) ps \<and>
         (\<forall>p\<in>set ps. \<exists>t. GetBlockByHeight c' p = Inr (Some t) \<and> t \<noteq> T)"
    by (intro arweave_reaches_trace) auto
next
  fix y assume "findClosestBlockArweave c' T = Some y"
  then show "\<exists>ps. snd y = HeadFetch # map (\<lambda>p. BlockFetch (sint p)) ps \<and>
         (\<forall>p e. p \<in> set ps \<and> GetBlockByHeight c' p = Inl e \<longrightarrow>
            fst y = Err (''error getting block '' @ decimal (sint p) @ '': '' @ e) \<and>
            last ps = p)"
    by (rule arweave_search_errors)
qed

theorem fetch_failure_aborts_search_witness:
  "eth_blockNumber down_rpc = Inl ''connection refused'' \<and>
   findClosestBlockRPC down_rpc 1717200000 =
     (Err ''error getting latest block number: connection refused'', [HeadFetch]) \<and>
   GetBlockHeight down_arweave = Inl ''connection refused'' \<and>
   findClosestBlockArweave down_arweave 1717200000 =
     Some (Err ''error getting latest block height: connection refused'', [HeadFetch]) \<and>
   eth_getBlockByNumber flaky_rpc 3 = Inl ''timeout'' \<and>
   findClosestBlockRPC flaky_rpc 1717200000 =
     (Err ''error getting block 3: timeout'', [HeadFetch, BlockFetch 2, BlockFetch 3]) \<and>
   GetBlockHeight flaky_arweave = Inr 3 \<and>
   GetBlockByHeight flaky_arweave 2 = Inr (Some 1) \<and>
   arweave_reaches (GetBlockByHeight flaky_arweave) 1717200000 3 3 3 [HeadFetch, BlockFetch 2] \<and>
   (3 :: int64) \<le>s 3 \<and> quo64 (3 + 3) 2 = 3 \<and>
   GetBlockByHeight flaky_arweave 3 = Inl ''timeout'' \<and>
   findClosestBlockArweave flaky_arweave 1717200000 =
     Some (Err ''error getting block 3: timeout'', [HeadFetch, BlockFetch 2, BlockFetch 3])"
proof -
  have d1: "eth_blockNumber down_rpc = Inl ''connection refused''" by (simp add: down_rpc_def)
  have d2: "GetBlockHeight down_arweave = Inl ''connection refused''" by (simp add: down_arweave_def)
  have f1: "eth_getBlockByNumber flaky_rpc 3 = Inl ''timeout''" by (simp add: flaky_rpc_def)
  have q: "quo64 6 2 = 3" by (simp add: quo64_def signed_divide_int_def)
  have f2: "GetBlockHeight flaky_arweave = Inr 3" "GetBlockByHeight flaky_arweave 2 = Inr (Some 1)"
    "GetBlockByHeight flaky_arweave (quo64 (3 + 3) 2) = Inl ''timeout''" "(3 :: int64) \<le>s 3"
    by (simp_all add: flaky_arweave_def q)
  from fetch_failure_aborts_search [of down_rpc 1717200000 down_arweave] d1 d2
  have down: "findClosestBlockRPC down_rpc 1717200000 =
      (Err (''error getting latest block number: '' @ ''connection refused''), [HeadFetch])"
    "findClosestBlockArweave down_arweave 1717200000 =
      Some (Err (''error getting latest block height: '' @ ''connection refused''), [HeadFetch])"
    by blast+
  from fetch_failure_aborts_search [of flaky_rpc 1717200000 flaky_arweave]
  obtain ps where ps: "snd (findClosestBlockRPC flaky_rpc 1717200000) = HeadFetch # map BlockFetch ps"
    and ab: "\<forall>p e. p \<in> set ps \<and> eth_getBlockByNumber flaky_rpc p = Inl e \<longrightarrow>
      fst (findClosestBlockRPC flaky_rpc 1717200000) =
        Err (''error getting block '' @ decimal p @ '': '' @ e) \<and> last ps = p"
    and tot: "\<forall>H low high tr e.
      GetBlockHeight flaky_arweave = Inr H \<and>
      arweave_reaches (GetBlockByHeight flaky_arweave) 1717200000 H low high tr \<and>
      low \<le>s high \<and> GetBlockByHeight flaky_arweave (quo64 (low + high) 2) = Inl e \<longrightarrow>
      findClosestBlockArweave flaky_arweave 1717200000 =
        Some (Err (''error getting block '' @ decimal (sint (quo64 (low + high) 2)) @ '': '' @ e),
              tr @ [BlockFetch (sint (quo64 (low + high) 2))])"
    by blast
  from ps flaky_rpc_run have "ps = [2, 3]" by (auto simp: map_eq_Cons_conv)
  with ab f1 have r: "fst (findClosestBlockRPC flaky_rpc 1717200000) =
      Err (''error getting block '' @ decimal 3 @ '': '' @ ''timeout'')" by simp
  from tot f2 flaky_arweave_reaches
  have "findClosestBlockArweave flaky_arweave 1717200000 =
        Some (Err (''error getting block '' @ decimal (sint (quo64 (3 + 3) 2 :: int64)) @ '': '' @ ''timeout''),
              [HeadFetch, BlockFetch 2] @ [BlockFetch (sint (quo64 (3 + 3) 2 :: int64))])"
    by blast
  then have a: "findClosestBlockArweave flaky_arweave 1717200000 =
     Some (Err ''error getting block 3: timeout'', [HeadFetch, BlockFetch 2, BlockFetch 3])"
    by (simp add: q decimal_def decimal_nat_digit digit_char_def)
  show ?thesis using d1 d2 f1 f2 q down flaky_rpc_run flaky_arweave_reaches a by simp
qed

text \<open>
  Claim C8 does not hold for the code. \<^verbatim>\<open>findClosestBlockRPC\<close> discards the error of
  \<^verbatim>\<open>hexutil.DecodeBig\<close> and calls \<^verbatim>\<open>Int64\<close> on the nil result: when the answer at a
  probed height has no decodable timestamp (here the empty string of a \<^verbatim>\<open>null\<close> block
  at height 2), the run ends in a panic, not in an error.
\<close>

theorem undecodable_timestamp_panics:
  "eth_getBlockByNumber pruned_rpc 2 = Inr [] \<and>
   DecodeBig [] = Inl ErrEmptyString \<and>
   findClosestBlockRPC pruned_rpc 1717200000 = (Panic, [HeadFetch, BlockFetch 2])"
  by (simp add: findClosestBlockRPC_def pruned_rpc_def rpc_loop_probe rpc_loop_done
      DecodeBig_def checkNumber_def)

section \<open>Properties of \<^verbatim>\<open>main\<close>\<close>

lemma run_networks_disk:
  "run_networks w T ns s = Some (ex, s') \<Longrightarrow> disk s' = disk s"
proof (induction ns arbitrary: s)
  case Nil
  then show ?case by simp
next
  case (Cons n ns)
  then show ?case
    by (fastforce split: option.splits step.splits)
qed

lemma assign_Some:
  "assign c k v = Some c' \<longleftrightarrow>
     (\<exists>al. NetworkStartBlock c = Some al \<and> c' = c\<lparr>NetworkStartBlock := Some (AList.update k v al)\<rparr>)"
  by (auto simp: assign_def split: option.splits)

lemma run_networks_config:
  assumes "run_networks w T ns s = Some (Exit0, s')"
  shows "case NetworkStartBlock (config s) of
           None \<Rightarrow> NetworkStartBlock (config s') = None
         | Some al \<Rightarrow> (\<exists>al'. NetworkStartBlock (config s') = Some al' \<and>
               fst ` set al \<subseteq> fst ` set al' \<and>
               (\<forall>k. k \<notin> Name ` set ns \<longrightarrow> map_of al' k = map_of al k))"
  using assms
proof (induction ns arbitrary: s)
  case Nil
  then show ?case by (auto split: option.splits)
next
  case (Cons n ns)
  from Cons.prems obtain st where st: "process_network w T n = Some st"
    by (auto split: option.splits)
  show ?case
  proof (cases st)
    case (Skipped msg)
    with st Cons.prems have "run_networks w T ns (s\<lparr>logged := logged s @ [msg]\<rparr>) = Some (Exit0, s')"
      by simp
    from Cons.IH [OF this] show ?thesis by (auto split: option.splits)
  next
    case Crash
    with st Cons.prems show ?thesis by simp
  next
    case (Found b)
    with st Cons.prems obtain c where c: "assign (config s) (Name n) b = Some c"
      and run: "run_networks w T ns (s\<lparr>config := c\<rparr>) = Some (Exit0, s')"
      by (auto split: option.splits)
    from c obtain al where al: "NetworkStartBlock (config s) = Some al"
      "NetworkStartBlock c = Some (AList.update (Name n) b al)"
      by (auto simp: assign_Some)
    from Cons.IH [OF run] al obtain al' where al': "NetworkStartBlock (config s') = Some al'"
      "fst ` set (AList.update (Name n) b al) \<subseteq> fst ` set al'"
      "\<forall>k. k \<notin> Name ` set ns \<longrightarrow> map_of al' k = map_of (AList.update (Name n) b al) k"
      by auto
    have "fst ` set al \<subseteq> fst ` set al'" using al'(2) by (auto simp: dom_update)
    moreover have "\<forall>k. k \<notin> Name ` set (n # ns) \<longrightarrow> map_of al' k = map_of al k"
      using al'(3) by (auto simp: update_conv')
    ultimately show ?thesis using al al' by simp
  qed
qed

lemma Unmarshal_sample:
  "Unmarshal sample_document = Inr \<lparr>NetworkStartBlock = Some [(''ethereum'', 1), (''polygon'', 2)]\<rparr>"
  by (simp add: Unmarshal_def sample_document_def field_matches_def ascii_lower_def)

lemma Unmarshal_empty:
  "Unmarshal (Document (JObject [])) = Inr \<lparr>NetworkStartBlock = None\<rparr>"
  by (simp add: Unmarshal_def)

lemma process_network_offline_ethereum:
  "Type n = ''ethereum'' \<Longrightarrow>
   process_network offline_world T n =
     Some (Skipped (''Error connecting to '' @ Name n @ '': dial unix: missing address''))"
  by (simp add: process_network_def process_ethereum_def offline_world_def)

lemma process_network_offline_arweave:
  "Type n = ''arweave'' \<Longrightarrow>
   process_network offline_world T n =
     Some (Skipped (''Error finding closest block for '' @ Name n @
       '': error getting latest block height: connection refused''))"
  by (simp add: process_network_def process_arweave_def offline_world_def
      findClosestBlockArweave_def down_arweave_def)

lemma run_networks_offline:
  assumes "\<forall>n\<in>set ns. Type n = ''ethereum'' \<or> Type n = ''arweave''"
  shows "\<exists>l. run_networks offline_world T ns s = Some (Exit0, s\<lparr>logged := logged s @ l\<rparr>) \<and>
           length l = length ns"
  using assms
proof (induction ns arbitrary: s)
  case Nil
  then show ?case by simp
next
  case (Cons n ns)
  then obtain msg where m: "process_network offline_world T n = Some (Skipped msg)"
    using process_network_offline_ethereum process_network_offline_arweave by fastforce
  from Cons.IH [of "s\<lparr>logged := logged s @ [msg]\<rparr>"] Cons.prems
  obtain l where "run_networks offline_world T ns (s\<lparr>logged := logged s @ [msg]\<rparr>) =
      Some (Exit0, s\<lparr>logged := (logged s @ [msg]) @ l\<rparr>)" "length l = length ns"
    by auto
  then show ?case using m by (intro exI [of _ "msg # l"]) simp
qed

lemma networks_types:
  "\<forall>n\<in>set (networks_original w). Type n = ''ethereum'' \<or> Type n = ''arweave''"
  "\<forall>n\<in>set (networks_hardened w). Type n = ''ethereum'' \<or> Type n = ''arweave''"
  by (simp_all add: networks_original_def networks_hardened_def)


lemma live_rpc_run:
  "findClosestBlockRPC live_rpc targetTimestamp = (Ok 2, [HeadFetch, BlockFetch 2])"
  by (simp add: findClosestBlockRPC_def live_rpc_def targetTimestamp_def rpc_loop_probe rpc_loop_done
      DecodeBig_def checkNumber_def decodeNibble_def Int64_def word_sless_alt)

lemma halted_rpc_run:
  "findClosestBlockRPC halted_rpc targetTimestamp = (Ok 4, [HeadFetch, BlockFetch 2, BlockFetch 3])"
  by (simp add: findClosestBlockRPC_def halted_rpc_def targetTimestamp_def rpc_loop_probe rpc_loop_done
      DecodeBig_def checkNumber_def decodeNibble_def Int64_def word_sless_alt)

lemma tall_rpc_run:
  "fst (findClosestBlockRPC tall_rpc targetTimestamp) = Ok 9223372036854775813"
  by (simp add: findClosestBlockRPC_def tall_rpc_def targetTimestamp_def rpc_loop_probe rpc_loop_done
      DecodeBig_def checkNumber_def decodeNibble_def Int64_def word_sless_alt)

lemma wrapped_rpc_run:
  "findClosestBlockRPC wrapped_rpc targetTimestamp = (Ok 1, [HeadFetch, BlockFetch 1])"
  by (simp add: findClosestBlockRPC_def wrapped_rpc_def targetTimestamp_def rpc_loop_probe rpc_loop_done
      DecodeBig_def checkNumber_def decodeNibble_def Int64_def word_sless_alt)

lemma process_ethereum_live:
  "process_ethereum (one_chain_world live_rpc) targetTimestamp
     \<lparr>Name = nm, URL = ''http://localhost:8545'', Type = ''ethereum''\<rparr> = Found 2"
proof -
  have "eth_getBlockLatest live_rpc = None" "eth_getBlockByNumber live_rpc 2 = Inr ''0x665a6480''"
    by (simp_all add: live_rpc_def)
  moreover have "DecodeBig ''0x665a6480'' = Inr 1717200000"
    by (simp add: DecodeBig_def checkNumber_def decodeNibble_def)
  ultimately show ?thesis
    by (simp add: process_ethereum_def one_chain_world_def live_rpc_run Int64_def)
qed

lemma process_ethereum_halted:
  "process_ethereum (one_chain_world halted_rpc) targetTimestamp
     \<lparr>Name = nm, URL = ''http://localhost:8545'', Type = ''ethereum''\<rparr> = Crash"
proof -
  have "eth_getBlockLatest halted_rpc = None" "eth_getBlockByNumber halted_rpc 4 = Inr []"
    by (simp_all add: halted_rpc_def)
  moreover have "DecodeBig [] = Inl ErrEmptyString"
    by (simp add: DecodeBig_def checkNumber_def)
  ultimately show ?thesis
    by (simp add: process_ethereum_def one_chain_world_def halted_rpc_run)
qed

lemma process_ethereum_tall:
  "process_ethereum (one_chain_world tall_rpc) targetTimestamp
     \<lparr>Name = nm, URL = ''http://localhost:8545'', Type = ''ethereum''\<rparr> =
   Found (Int64 9223372036854775813)"
proof -
  have "eth_getBlockLatest tall_rpc = None"
    "eth_getBlockByNumber tall_rpc 9223372036854775813 = Inr ''0x665a6481''"
    by (simp_all add: tall_rpc_def)
  moreover have "DecodeBig ''0x665a6481'' = Inr 1717200001"
    by (simp add: DecodeBig_def checkNumber_def decodeNibble_def)
  ultimately show ?thesis
    by (simp add: process_ethereum_def one_chain_world_def tall_rpc_run)
qed

lemma process_network_elsewhere:
  "URL n = [] \<Longrightarrow> Type n = ''ethereum'' \<or> Type n = ''arweave'' \<Longrightarrow>
   \<exists>msg. process_network (one_chain_world c) T n = Some (Skipped msg)"
  by (auto simp: process_network_def process_ethereum_def process_arweave_def one_chain_world_def
      findClosestBlockArweave_def down_arweave_def)

lemma run_networks_elsewhere:
  assumes "\<forall>n\<in>set ns. URL n = [] \<and> (Type n = ''ethereum'' \<or> Type n = ''arweave'')"
  shows "\<exists>l. run_networks (one_chain_world c) T ns s = Some (Exit0, s\<lparr>logged := logged s @ l\<rparr>)"
  using assms
proof (induction ns arbitrary: s)
  case Nil
  show ?case by (intro exI [of _ "[]"]) simp
next
  case (Cons n ns)
  then obtain msg where m: "process_network (one_chain_world c) T n = Some (Skipped msg)"
    using process_network_elsewhere [of n c T] by auto
  from Cons.IH [of "s\<lparr>logged := logged s @ [msg]\<rparr>"] Cons.prems
  obtain l where "run_networks (one_chain_world c) T ns (s\<lparr>logged := logged s @ [msg]\<rparr>) =
      Some (Exit0, s\<lparr>logged := (logged s @ [msg]) @ l\<rparr>)"
    by auto
  then show ?case using m by (intro exI [of _ "msg # l"]) simp
qed

lemma networks_hardened_one_chain:
  "\<exists>rest. networks_hardened (one_chain_world c) =
      \<lparr>Name = ''ethereum'', URL = ''http://localhost:8545'', Type = ''ethereum''\<rparr> # rest \<and>
      (\<forall>n\<in>set rest. URL n = [] \<and> (Type n = ''ethereum'' \<or> Type n = ''arweave''))"
  by (simp add: networks_hardened_def one_chain_world_def)

lemma networks_original_one_chain:
  "\<exists>rest. networks_original (one_chain_world c) =
      \<lparr>Name = ''Ethereum'', URL = ''http://localhost:8545'', Type = ''ethereum''\<rparr> # rest \<and>
      (\<forall>n\<in>set rest. URL n = [] \<and> (Type n = ''ethereum'' \<or> Type n = ''arweave''))"
  by (simp add: networks_original_def one_chain_world_def)

lemma main_hardened_halted:
  "main_hardened (one_chain_world halted_rpc) sample_disk =
     Some (Panicked, \<lparr>config = \<lparr>NetworkStartBlock = Some [(''ethereum'', 1), (''polygon'', 2)]\<rparr>,
       logged = [], disk = sample_disk\<rparr>)"
proof -
  have st: "startup_hardened (one_chain_world halted_rpc) sample_disk =
      Inr \<lparr>config = \<lparr>NetworkStartBlock = Some [(''ethereum'', 1), (''polygon'', 2)]\<rparr>, logged = [],
        disk = sample_disk\<rparr>"
    by (simp add: startup_hardened_def ReadFile_def Unmarshal_sample sample_disk_def one_chain_world_def)
  from networks_hardened_one_chain [of halted_rpc] obtain rest where
    n: "networks_hardened (one_chain_world halted_rpc) =
      \<lparr>Name = ''ethereum'', URL = ''http://localhost:8545'', Type = ''ethereum''\<rparr> # rest" by blast
  show ?thesis
    by (simp add: main_hardened_def st n process_network_def process_ethereum_halted)
qed

lemma main_original_live:
  "\<exists>l. main_original (one_chain_world live_rpc) sample_disk =
     Some (Exit0,
       \<lparr>config = \<lparr>NetworkStartBlock = Some [(''ethereum'', 1), (''polygon'', 2), (''Ethereum'', 2)]\<rparr>,
        logged = l,
        disk = Map.empty(''config.json.old'' := Some sample_document,
          ''config.json'' := Some (Document (JObject
            [(''network_start_block'',
              JObject [(''Ethereum'', JInt 2), (''ethereum'', JInt 1), (''polygon'', JInt 2)])])))\<rparr>)"
proof -
  define d1 where "d1 = sample_disk(''config.json'' := None, ''config.json.old'' := Some sample_document)"
  have st: "startup_original (one_chain_world live_rpc) sample_disk =
      Inr \<lparr>config = \<lparr>NetworkStartBlock = Some [(''ethereum'', 1), (''polygon'', 2)]\<rparr>, logged = [],
        disk = d1\<rparr>"
    by (simp add: startup_original_def ReadFile_def Rename_def Unmarshal_sample sample_disk_def
        one_chain_world_def d1_def)
  from networks_original_one_chain [of live_rpc] obtain rest where
    n: "networks_original (one_chain_world live_rpc) =
      \<lparr>Name = ''Ethereum'', URL = ''http://localhost:8545'', Type = ''ethereum''\<rparr> # rest"
    and r: "\<forall>n\<in>set rest. URL n = [] \<and> (Type n = ''ethereum'' \<or> Type n = ''arweave'')" by blast
  define s1 where "s1 = \<lparr>config = \<lparr>NetworkStartBlock = Some [(''ethereum'', 1 :: int64), (''polygon'', 2), (''Ethereum'', 2)]\<rparr>,
      logged = ([] :: string list), disk = d1\<rparr>"
  from run_networks_elsewhere [OF r, of live_rpc targetTimestamp s1]
  obtain l where rest: "run_networks (one_chain_world live_rpc) targetTimestamp rest s1 =
      Some (Exit0, s1\<lparr>logged := logged s1 @ l\<rparr>)" by blast
  have run: "run_networks (one_chain_world live_rpc) targetTimestamp
      (networks_original (one_chain_world live_rpc))
      \<lparr>config = \<lparr>NetworkStartBlock = Some [(''ethereum'', 1), (''polygon'', 2)]\<rparr>, logged = [], disk = d1\<rparr> =
      Some (Exit0, s1\<lparr>logged := l\<rparr>)"
    using rest by (simp add: n process_network_def process_ethereum_live assign_def s1_def)
  have m: "main_original (one_chain_world live_rpc) sample_disk =
      Some (finish_original (one_chain_world live_rpc) (s1\<lparr>logged := l\<rparr>))"
    by (simp add: main_original_def st run)
  have w: "write_result (one_chain_world live_rpc) 0 = Written" by (simp add: one_chain_world_def)
  have srt: "sort_key fst [(''ethereum'', 1 :: int64), (''polygon'', 2), (''Ethereum'', 2)] =
      [(''Ethereum'', 2), (''ethereum'', 1), (''polygon'', 2)]"
    by simp
  show ?thesis
    unfolding m
    by (rule exI [of _ l])
      (auto simp: finish_original_def WriteFile_def w MarshalIndent_def srt sample_disk_def s1_def d1_def)
qed

text \<open>
  Claim C5 does not hold for the code. A failure that a call reports as an error skips
  the network, but a network can also end the whole run. Here the chain behind
  \<^verbatim>\<open>ETHEREUM_RPC_URL\<close> has three blocks, all older than the target: the search
  returns height 4, the node answers \<^verbatim>\<open>null\<close> for that block, the error of
  \<^verbatim>\<open>hexutil.DecodeBig\<close> is discarded and \<^verbatim>\<open>blockTimestamp.Int64()\<close> dereferences
  nil. The hardened \<^verbatim>\<open>main\<close> panics at the first network; no later network is
  processed and nothing is written.
\<close>

theorem stale_chain_crashes_run:
  "findClosestBlockRPC halted_rpc targetTimestamp =
     (Ok 4, [HeadFetch, BlockFetch 2, BlockFetch 3]) \<and>
   eth_getBlockByNumber halted_rpc 4 = Inr [] \<and>
   DecodeBig [] = Inl ErrEmptyString \<and>
   process_network (one_chain_world halted_rpc) targetTimestamp
     \<lparr>Name = ''ethereum'', URL = ''http://localhost:8545'', Type = ''ethereum''\<rparr> = Some Crash \<and>
   main_hardened (one_chain_world halted_rpc) sample_disk =
     Some (Panicked, \<lparr>config = \<lparr>NetworkStartBlock = Some [(''ethereum'', 1), (''polygon'', 2)]\<rparr>,
       logged = [], disk = sample_disk\<rparr>)"
proof -
  have "eth_getBlockByNumber halted_rpc 4 = Inr []" by (simp add: halted_rpc_def)
  moreover have "DecodeBig [] = Inl ErrEmptyString" by (simp add: DecodeBig_def checkNumber_def)
  moreover have "process_network (one_chain_world halted_rpc) targetTimestamp
     \<lparr>Name = ''ethereum'', URL = ''http://localhost:8545'', Type = ''ethereum''\<rparr> = Some Crash"
    by (simp add: process_network_def process_ethereum_halted)
  ultimately show ?thesis using halted_rpc_run main_hardened_halted by blast
qed

lemma startup_original_Inr:
  assumes "startup_original w d = Inr s"
  shows "\<exists>doc. d ''config.json'' = Some doc \<and> Unmarshal doc = Inr (config s) \<and> logged s = [] \<and>
           disk s = d(''config.json'' := None, ''config.json.old'' := Some doc)"
  using assms
  by (auto simp: startup_original_def ReadFile_def Rename_def
      split: option.splits sum.splits prod.splits)

text \<open>
  Claim C10. In the original variant the steps before the loop end with the rename of
  config.json to config.json.old; a failed rename is fatal. After a successful rename
  config.json is absent and config.json.old holds the old content; the loop over the
  networks leaves the disk as it is, after any number of networks; a run that panics
  leaves config.json absent; a run that succeeds differs from the disk after the rename
  only in the config.json written at the end.
\<close>

theorem original_moves_config_aside:
  "(dotenv_Load w = None \<and> d ''config.json'' = Some doc \<and> Unmarshal doc = Inr c \<and>
      rename_error w = Some e \<longrightarrow>
      map_option fst (main_original w d) = Some (Fatal (''Error renaming config file: '' @ e))) \<and>
   (startup_original w d = Inr s \<longrightarrow>
      disk s ''config.json'' = None \<and> disk s ''config.json.old'' = d ''config.json'' \<and>
      d ''config.json'' \<noteq> None \<and>
      (\<forall>ns ex s'. run_networks w targetTimestamp ns s = Some (ex, s') \<longrightarrow> disk s' = disk s) \<and>
      (\<forall>s'. main_original w d = Some (Panicked, s') \<longrightarrow> disk s' ''config.json'' = None) \<and>
      (\<forall>s'. main_original w d = Some (Exit0, s') \<longrightarrow>
         disk s' = (disk s)(''config.json'' := Some (MarshalIndent (config s')))))"
proof (intro conjI impI allI)
  assume "dotenv_Load w = None \<and> d ''config.json'' = Some doc \<and> Unmarshal doc = Inr c \<and>
      rename_error w = Some e"
  then show "map_option fst (main_original w d) = Some (Fatal (''Error renaming config file: '' @ e))"
    by (simp add: main_original_def startup_original_def ReadFile_def Rename_def)
next
  assume "startup_original w d = Inr s"
  from startup_original_Inr [OF this]
  show "disk s ''config.json'' = None" "disk s ''config.json.old'' = d ''config.json''"
    "d ''config.json'' \<noteq> None" by auto
next
  fix ns ex s' assume "run_networks w targetTimestamp ns s = Some (ex, s')"
  then show "disk s' = disk s" by (rule run_networks_disk)
next
  fix s' assume st: "startup_original w d = Inr s" and m: "main_original w d = Some (Panicked, s')"
  from m st obtain ex s1 where run: "run_networks w targetTimestamp (networks_original w) s = Some (ex, s1)"
    and r: "(ex = Exit0 \<and> finish_original w s1 = (Panicked, s')) \<or> (ex = Panicked \<and> s1 = s')"
    by (auto simp: main_original_def split: option.splits exit.splits)
  have "finish_original w s1 \<noteq> (Panicked, s')"
    by (auto simp: finish_original_def split: prod.splits option.splits)
  with r have "s1 = s'" by blast
  with run_networks_disk [OF run] startup_original_Inr [OF st]
  show "disk s' ''config.json'' = None" by auto
next
  fix s' assume st: "startup_original w d = Inr s" and m: "main_original w d = Some (Exit0, s')"
  from m st obtain s1 where run: "run_networks w targetTimestamp (networks_original w) s = Some (Exit0, s1)"
    and f: "finish_original w s1 = (Exit0, s')"
    by (auto simp: main_original_def split: option.splits exit.splits)
  from f have "config s' = config s1" "disk s' = (disk s1)(''config.json'' := Some (MarshalIndent (config s1)))"
    by (auto simp: finish_original_def WriteFile_def split: prod.splits option.splits write_outcome.splits)
  with run_networks_disk [OF run]
  show "disk s' = (disk s)(''config.json'' := Some (MarshalIndent (config s')))" by simp
qed

theorem original_moves_config_aside_witness:
  "dotenv_Load readonly_world = None \<and> sample_disk ''config.json'' = Some sample_document \<and>
   Unmarshal sample_document =
     Inr \<lparr>NetworkStartBlock = Some [(''ethereum'', 1), (''polygon'', 2)]\<rparr> \<and>
   rename_error readonly_world = Some ''permission denied'' \<and>
   map_option fst (main_original readonly_world sample_disk) =
     Some (Fatal ''Error renaming config file: permission denied'') \<and>
   (\<exists>s. startup_original (one_chain_world live_rpc) sample_disk = Inr s \<and>
      disk s ''config.json'' = None \<and> disk s ''config.json.old'' = Some sample_document) \<and>
   left_on_disk (main_original (one_chain_world live_rpc) sample_disk) =
     Some (Exit0,
       Some (Document (JObject [(''network_start_block'',
         JObject [(''Ethereum'', JInt 2), (''ethereum'', JInt 1), (''polygon'', JInt 2)])])),
       Some sample_document)"
proof -
  have h: "dotenv_Load readonly_world = None \<and> sample_disk ''config.json'' = Some sample_document \<and>
      Unmarshal sample_document =
        Inr \<lparr>NetworkStartBlock = Some [(''ethereum'', 1), (''polygon'', 2)]\<rparr> \<and>
      rename_error readonly_world = Some ''permission denied''"
    by (simp add: readonly_world_def offline_world_def sample_disk_def Unmarshal_sample)
  from original_moves_config_aside [where w = readonly_world and d = sample_disk
      and doc = sample_document
      and c = "\<lparr>NetworkStartBlock = Some [(''ethereum'', 1), (''polygon'', 2)]\<rparr>"
      and e = "''permission denied''"] h
  have f: "map_option fst (main_original readonly_world sample_disk) =
      Some (Fatal (''Error renaming config file: '' @ ''permission denied''))" by blast
  have st: "startup_original (one_chain_world live_rpc) sample_disk =
      Inr \<lparr>config = \<lparr>NetworkStartBlock = Some [(''ethereum'', 1), (''polygon'', 2)]\<rparr>, logged = [],
        disk = sample_disk(''config.json'' := None, ''config.json.old'' := Some sample_document)\<rparr>"
    by (simp add: startup_original_def ReadFile_def Rename_def Unmarshal_sample sample_disk_def
        one_chain_world_def)
  from original_moves_config_aside [where w = "one_chain_world live_rpc" and d = sample_disk
      and s = "\<lparr>config = \<lparr>NetworkStartBlock = Some [(''ethereum'', 1), (''polygon'', 2)]\<rparr>, logged = [],
        disk = sample_disk(''config.json'' := None, ''config.json.old'' := Some sample_document)\<rparr>"] st
  have aside: "\<exists>s. startup_original (one_chain_world live_rpc) sample_disk = Inr s \<and>
      disk s ''config.json'' = None \<and> disk s ''config.json.old'' = sample_disk ''config.json''"
    by blast
  from main_original_live obtain l where
    "main_original (one_chain_world live_rpc) sample_disk =
     Some (Exit0,
       \<lparr>config = \<lparr>NetworkStartBlock = Some [(''ethereum'', 1), (''polygon'', 2), (''Ethereum'', 2)]\<rparr>,
        logged = l,
        disk = Map.empty(''config.json.old'' := Some sample_document,
          ''config.json'' := Some (Document (JObject
            [(''network_start_block'',
              JObject [(''Ethereum'', JInt 2), (''ethereum'', JInt 1), (''polygon'', JInt 2)])])))\<rparr>)"
    by blast
  then have lo: "left_on_disk (main_original (one_chain_world live_rpc) sample_disk) =
     Some (Exit0,
       Some (Document (JObject [(''network_start_block'',
         JObject [(''Ethereum'', JInt 2), (''ethereum'', JInt 1), (''polygon'', JInt 2)])])),
       Some sample_document)"
    by (simp add: left_on_disk_def)
  show ?thesis using h f aside lo by simp
qed

lemma farcasterTimestamp_value: "farcasterTimestamp = 1693872000"
  by (simp add: farcasterTimestamp_def targetTimestamp_def)

lemma retry_write_None:
  "retry_write w data n i e d0 = (None, d') \<Longrightarrow> d' ''config.json'' = Some data"
proof (induction n arbitrary: i e d0)
  case 0
  then show ?case by simp
next
  case (Suc n)
  show ?case
  proof (cases "write_result w i")
    case Written
    with Suc.prems show ?thesis by (auto simp: WriteFile_def)
  next
    case (OpenFailed x)
    with Suc.prems have "retry_write w data n (Suc i) x d0 = (None, d')"
      by (simp add: WriteFile_def)
    then show ?thesis by (rule Suc.IH)
  next
    case (WriteFailed x p)
    with Suc.prems have "retry_write w data n (Suc i) x (d0(''config.json'' := Some p)) = (None, d')"
      by (simp add: WriteFile_def)
    then show ?thesis by (rule Suc.IH)
  qed
qed

lemma finish_hardened_config:
  assumes "NetworkStartBlock (config s) = Some al"
  shows "\<exists>ex s'. finish_hardened w s = (ex, s') \<and> ex \<noteq> Panicked \<and>
           NetworkStartBlock (config s') = Some (AList.update ''farcaster'' 1693872000 al) \<and>
           (ex = Exit0 \<longrightarrow> disk s' ''config.json'' = Some (MarshalIndent (config s')))"
proof -
  define c where "c = (config s)\<lparr>NetworkStartBlock := Some (AList.update ''farcaster'' 1693872000 al)\<rparr>"
  have a: "assign (config s) ''farcaster'' farcasterTimestamp = Some c"
    using assms by (simp add: assign_def c_def farcasterTimestamp_value)
  show ?thesis
    using a retry_write_None [of w "MarshalIndent c" 3 1]
    by (auto simp: finish_hardened_def Let_def c_def WriteFile_def
        split: prod.splits option.splits write_outcome.splits)
qed

lemma run_networks_exit:
  "run_networks w T ns s = Some (ex, s') \<Longrightarrow> ex = Exit0 \<or> ex = Panicked"
  by (induction ns arbitrary: s) (auto split: option.splits step.splits)

lemma startup_hardened_offline:
  "startup_hardened offline_world sample_disk =
     Inr \<lparr>config = \<lparr>NetworkStartBlock = Some [(''ethereum'', 1), (''polygon'', 2)]\<rparr>, logged = [],
       disk = sample_disk\<rparr>"
  by (simp add: startup_hardened_def ReadFile_def Unmarshal_sample sample_disk_def offline_world_def)

text \<open>
  Claim C9, as amended. In the hardened variant, when the parsed config holds a
  \<^verbatim>\<open>network_start_block\<close> object and the loop over the networks has completed, main
  sets the entry \<^verbatim>\<open>farcaster\<close> to \<open>1717200000 - 9 * 30 * 24 * 60 * 60 = 1693872000\<close>,
  a timestamp and no searched height, whatever the entry held before and whether or not
  any search succeeded; the other entries stay as the loop left them, and a run that
  succeeds has written this config. When the config holds no such object the map is nil
  and the assignment panics.
\<close>

theorem hardened_sets_farcaster:
  "startup_hardened w d = Inr s \<and> NetworkStartBlock (config s) \<noteq> None \<and>
   run_networks w targetTimestamp (networks_hardened w) s = Some (Exit0, s1) \<longrightarrow>
     (\<exists>ex s' al. main_hardened w d = Some (ex, s') \<and> ex \<noteq> Panicked \<and>
        NetworkStartBlock (config s1) = Some al \<and>
        NetworkStartBlock (config s') = Some (AList.update ''farcaster'' 1693872000 al) \<and>
        map_of (AList.update ''farcaster'' 1693872000 al) ''farcaster'' = Some 1693872000 \<and>
        (\<forall>k. k \<noteq> ''farcaster'' \<longrightarrow>
           map_of (AList.update ''farcaster'' 1693872000 al) k = map_of al k) \<and>
        (ex = Exit0 \<longrightarrow> disk s' ''config.json'' = Some (MarshalIndent (config s'))))"
proof
  assume a: "startup_hardened w d = Inr s \<and> NetworkStartBlock (config s) \<noteq> None \<and>
   run_networks w targetTimestamp (networks_hardened w) s = Some (Exit0, s1)"
  then obtain al0 where "NetworkStartBlock (config s) = Some al0" by auto
  with run_networks_config [of w targetTimestamp "networks_hardened w" s s1] a
  obtain al where al: "NetworkStartBlock (config s1) = Some al" by auto
  from finish_hardened_config [OF al, of w] obtain ex s' where
    f: "finish_hardened w s1 = (ex, s')" "ex \<noteq> Panicked"
      "NetworkStartBlock (config s') = Some (AList.update ''farcaster'' 1693872000 al)"
      "ex = Exit0 \<longrightarrow> disk s' ''config.json'' = Some (MarshalIndent (config s'))"
    by blast
  have "main_hardened w d = Some (ex, s')" using a f(1) by (simp add: main_hardened_def)
  then show "\<exists>ex s' al. main_hardened w d = Some (ex, s') \<and> ex \<noteq> Panicked \<and>
        NetworkStartBlock (config s1) = Some al \<and>
        NetworkStartBlock (config s') = Some (AList.update ''farcaster'' 1693872000 al) \<and>
        map_of (AList.update ''farcaster'' 1693872000 al) ''farcaster'' = Some 1693872000 \<and>
        (\<forall>k. k \<noteq> ''farcaster'' \<longrightarrow>
           map_of (AList.update ''farcaster'' 1693872000 al) k = map_of al k) \<and>
        (ex = Exit0 \<longrightarrow> disk s' ''config.json'' = Some (MarshalIndent (config s')))"
    using al f by (auto simp: update_conv')
qed

theorem hardened_sets_farcaster_witness:
  "(\<exists>s. startup_hardened offline_world sample_disk = Inr s \<and>
      NetworkStartBlock (config s) = Some [(''ethereum'', 1), (''polygon'', 2)]) \<and>
   (\<exists>ex s'. main_hardened offline_world sample_disk = Some (ex, s') \<and>
      NetworkStartBlock (config s') =
        Some [(''ethereum'', 1), (''polygon'', 2), (''farcaster'', 1693872000)]) \<and>
   left_on_disk (main_hardened offline_world sample_disk) =
     Some (Exit0,
       Some (Document (JObject [(''network_start_block'',
         JObject [(''ethereum'', JInt 1), (''farcaster'', JInt 1693872000), (''polygon'', JInt 2)])])),
       None)"
proof -
  define s0 where "s0 = \<lparr>config = \<lparr>NetworkStartBlock = Some [(''ethereum'', 1 :: int64), (''polygon'', 2)]\<rparr>,
      logged = ([] :: string list), disk = sample_disk\<rparr>"
  have st: "startup_hardened offline_world sample_disk = Inr s0"
    unfolding s0_def by (rule startup_hardened_offline)
  have "\<exists>l. run_networks offline_world targetTimestamp (networks_hardened offline_world) s0 =
      Some (Exit0, s0\<lparr>logged := logged s0 @ l\<rparr>) \<and> length l = length (networks_hardened offline_world)"
    by (rule run_networks_offline) (rule networks_types)
  then obtain l where run: "run_networks offline_world targetTimestamp (networks_hardened offline_world) s0 =
      Some (Exit0, s0\<lparr>logged := logged s0 @ l\<rparr>)" by blast
  have nn: "NetworkStartBlock (config s0) \<noteq> None" by (simp add: s0_def)
  from hardened_sets_farcaster [of offline_world sample_disk s0 "s0\<lparr>logged := logged s0 @ l\<rparr>"] st nn run
  obtain ex s' al where r: "main_hardened offline_world sample_disk = Some (ex, s')"
    "NetworkStartBlock (config (s0\<lparr>logged := logged s0 @ l\<rparr>)) = Some al"
    "NetworkStartBlock (config s') = Some (AList.update ''farcaster'' 1693872000 al)"
    by blast
  from r(2) have "al = [(''ethereum'', 1), (''polygon'', 2)]" by (simp add: s0_def)
  with r(3) have c: "NetworkStartBlock (config s') =
      Some [(''ethereum'', 1), (''polygon'', 2), (''farcaster'', 1693872000)]" by simp
  have w: "write_result offline_world 0 = Written" by (simp add: offline_world_def)
  have srt: "sort_key fst [(''ethereum'', 1 :: int64), (''polygon'', 2), (''farcaster'', 1693872000)] =
      [(''ethereum'', 1), (''farcaster'', 1693872000), (''polygon'', 2)]"
    by simp
  have "main_hardened offline_world sample_disk =
      Some (finish_hardened offline_world (s0\<lparr>logged := logged s0 @ l\<rparr>))"
    by (simp add: main_hardened_def st run)
  then have lo: "left_on_disk (main_hardened offline_world sample_disk) =
     Some (Exit0,
       Some (Document (JObject [(''network_start_block'',
         JObject [(''ethereum'', JInt 1), (''farcaster'', JInt 1693872000), (''polygon'', JInt 2)])])),
       None)"
    by (simp add: left_on_disk_def finish_hardened_def assign_def s0_def farcasterTimestamp_value
        Let_def WriteFile_def w MarshalIndent_def srt sample_disk_def)
  show ?thesis using st r(1) c lo by (auto simp: s0_def)
qed

theorem hardened_sets_farcaster_counterexample:
  "empty_disk ''config.json'' = Some (Document (JObject [])) \<and>
   Unmarshal (Document (JObject [])) = Inr \<lparr>NetworkStartBlock = None\<rparr> \<and>
   assign \<lparr>NetworkStartBlock = None\<rparr> ''farcaster'' farcasterTimestamp = None \<and>
   left_on_disk (main_hardened offline_world empty_disk) =
     Some (Panicked, Some (Document (JObject [])), None)"
proof -
  define s0 where "s0 = \<lparr>config = \<lparr>NetworkStartBlock = None\<rparr>,
      logged = ([] :: string list), disk = empty_disk\<rparr>"
  have st: "startup_hardened offline_world empty_disk = Inr s0"
    by (simp add: startup_hardened_def ReadFile_def Unmarshal_empty empty_disk_def offline_world_def
        s0_def)
  have "\<exists>l. run_networks offline_world targetTimestamp (networks_hardened offline_world) s0 =
      Some (Exit0, s0\<lparr>logged := logged s0 @ l\<rparr>) \<and> length l = length (networks_hardened offline_world)"
    by (rule run_networks_offline) (rule networks_types)
  then obtain l where run: "run_networks offline_world targetTimestamp (networks_hardened offline_world) s0 =
      Some (Exit0, s0\<lparr>logged := logged s0 @ l\<rparr>)" by blast
  have "main_hardened offline_world empty_disk =
      Some (finish_hardened offline_world (s0\<lparr>logged := logged s0 @ l\<rparr>))"
    by (simp add: main_hardened_def st run)
  then have "left_on_disk (main_hardened offline_world empty_disk) =
     Some (Panicked, Some (Document (JObject [])), None)"
    by (simp add: left_on_disk_def finish_hardened_def assign_def s0_def empty_disk_def)
  then show ?thesis by (simp add: empty_disk_def Unmarshal_empty assign_def)
qed














lemma tall_rpc_ledger: "rpc_ledger tall_rpc 18446744073709551616 tall_timestamps"
proof -
  have d1: "DecodeBig ''0x1'' = Inr 1" and d2: "DecodeBig ''0x665a6481'' = Inr 1717200001"
    by (simp_all add: DecodeBig_def checkNumber_def decodeNibble_def)
  show ?thesis
    unfolding rpc_ledger_def
    by (simp add: tall_rpc_def tall_timestamps_def d1 d2)
qed

lemma Int64_small: "0 \<le> x \<Longrightarrow> x < 2 ^ 63 \<Longrightarrow> sint (Int64 x) = x"
  by (simp add: Int64_def sint_of_int_nowrap)

text \<open>
  Claim C7, as amended. On the EVM path the heights of the search (\<open>low\<close>, \<open>high\<close>,
  \<open>mid\<close> and the result) are unbounded integers: the search is right for every head
  height, also beyond \<open>2^63\<close>. A decoded timestamp is compared with the target through
  \<^verbatim>\<open>Int64()\<close>, which is the timestamp itself when it is below \<open>2^63\<close>. The value
  recorded for the network is \<^verbatim>\<open>closestBlock.Int64()\<close>, which is the found height when
  that is below \<open>2^63\<close>. Larger timestamps and heights wrap around: a height of
  \<open>2^63 + 5\<close> is recorded as \<open>-(2^63) + 5\<close>, and a timestamp of \<open>2^64 + 1717200000\<close>
  counts as an exact match of the target.
\<close>

theorem evm_heights_exact_values_int64:
  "(rpc_ledger c H ts \<longrightarrow>
      (\<exists>r ps. findClosestBlockRPC c T = (Ok r, HeadFetch # map BlockFetch ps) \<and>
         1 \<le> r \<and> r \<le> H + 1 \<and> boundary ts H (sint T) ps r)) \<and>
   (DecodeBig s = Inr t \<and> t < 2 ^ 63 \<longrightarrow> sint (Int64 t) = t) \<and>
   (rpc_Dial w (URL n) = Inr c' \<and> eth_getBlockLatest c' = None \<and>
    fst (findClosestBlockRPC c' T') = Ok r' \<and> eth_getBlockByNumber c' r' = Inr s' \<and>
    DecodeBig s' = Inr t' \<longrightarrow>
      process_ethereum w T' n = Found (Int64 r') \<and>
      (0 \<le> r' \<and> r' < 2 ^ 63 \<longrightarrow> sint (Int64 r') = r'))"
proof (intro conjI impI)
  assume "rpc_ledger c H ts"
  from rpc_search_boundary [OF this, of T]
  show "\<exists>r ps. findClosestBlockRPC c T = (Ok r, HeadFetch # map BlockFetch ps) \<and>
         1 \<le> r \<and> r \<le> H + 1 \<and> boundary ts H (sint T) ps r" by blast
next
  assume "DecodeBig s = Inr t \<and> t < 2 ^ 63"
  then show "sint (Int64 t) = t" using DecodeBig_nonneg [of s t] by (simp add: Int64_small)
next
  assume "rpc_Dial w (URL n) = Inr c' \<and> eth_getBlockLatest c' = None \<and>
    fst (findClosestBlockRPC c' T') = Ok r' \<and> eth_getBlockByNumber c' r' = Inr s' \<and>
    DecodeBig s' = Inr t'"
  then show "process_ethereum w T' n = Found (Int64 r')"
    by (simp add: process_ethereum_def)
next
  assume "0 \<le> r' \<and> r' < 2 ^ 63"
  then show "sint (Int64 r') = r'" by (simp add: Int64_small)
qed

theorem evm_heights_exact_values_int64_witness:
  "rpc_ledger tall_rpc 18446744073709551616 tall_timestamps \<and>
   fst (findClosestBlockRPC tall_rpc targetTimestamp) = Ok 9223372036854775813 \<and>
   DecodeBig ''0x665a6480'' = Inr 1717200000 \<and> sint (Int64 1717200000) = 1717200000 \<and>
   rpc_Dial (one_chain_world live_rpc) ''http://localhost:8545'' = Inr live_rpc \<and>
   eth_getBlockLatest live_rpc = None \<and>
   fst (findClosestBlockRPC live_rpc targetTimestamp) = Ok 2 \<and>
   eth_getBlockByNumber live_rpc 2 = Inr ''0x665a6480'' \<and>
   process_ethereum (one_chain_world live_rpc) targetTimestamp
     \<lparr>Name = ''ethereum'', URL = ''http://localhost:8545'', Type = ''ethereum''\<rparr> = Found (Int64 2) \<and>
   sint (Int64 2) = 2"
proof -
  have d: "DecodeBig ''0x665a6480'' = Inr 1717200000"
    by (simp add: DecodeBig_def checkNumber_def decodeNibble_def)
  have h: "rpc_Dial (one_chain_world live_rpc)
      (URL \<lparr>Name = ''ethereum'', URL = ''http://localhost:8545'', Type = ''ethereum''\<rparr>) = Inr live_rpc"
    "eth_getBlockLatest live_rpc = None"
    "fst (findClosestBlockRPC live_rpc targetTimestamp) = Ok 2"
    "eth_getBlockByNumber live_rpc 2 = Inr ''0x665a6480''"
    by (simp_all add: one_chain_world_def live_rpc_run) (simp_all add: live_rpc_def)
  have b: "(1717200000 :: int) < 2 ^ 63" "(0 :: int) \<le> 2" "(2 :: int) < 2 ^ 63" by simp_all
  from evm_heights_exact_values_int64 [where c = tall_rpc and H = 18446744073709551616
      and ts = tall_timestamps and T = targetTimestamp and s = "''0x665a6480''" and t = 1717200000
      and w = "one_chain_world live_rpc"
      and n = "\<lparr>Name = ''ethereum'', URL = ''http://localhost:8545'', Type = ''ethereum''\<rparr>"
      and c' = live_rpc and T' = targetTimestamp and r' = 2 and s' = "''0x665a6480''"
      and t' = 1717200000]
    tall_rpc_ledger d h b
  have "sint (Int64 1717200000) = 1717200000"
    "process_ethereum (one_chain_world live_rpc) targetTimestamp
       \<lparr>Name = ''ethereum'', URL = ''http://localhost:8545'', Type = ''ethereum''\<rparr> = Found (Int64 2)"
    "sint (Int64 2) = 2"
    by blast+
  then show ?thesis using tall_rpc_ledger tall_rpc_run d h by simp
qed

theorem evm_heights_exact_values_int64_counterexample:
  "fst (findClosestBlockRPC tall_rpc targetTimestamp) = Ok 9223372036854775813 \<and>
   process_ethereum (one_chain_world tall_rpc) targetTimestamp
     \<lparr>Name = ''ethereum'', URL = ''http://localhost:8545'', Type = ''ethereum''\<rparr> =
     Found (Int64 9223372036854775813) \<and>
   sint (Int64 9223372036854775813) = - 9223372036854775803 \<and>
   map_sum id DecodeBig (eth_getBlockByNumber wrapped_rpc 1) = Inr (Inr 18446744075426751616) \<and>
   sint targetTimestamp = 1717200000 \<and>
   findClosestBlockRPC wrapped_rpc targetTimestamp = (Ok 1, [HeadFetch, BlockFetch 1])"
proof -
  have "sint (Int64 9223372036854775813) = - 9223372036854775803"
    by (simp add: Int64_def)
  moreover have "map_sum id DecodeBig (eth_getBlockByNumber wrapped_rpc 1) = Inr (Inr 18446744075426751616)"
    by (simp add: wrapped_rpc_def DecodeBig_def checkNumber_def decodeNibble_def)
  moreover have "sint targetTimestamp = 1717200000" by (simp add: targetTimestamp_def)
  ultimately show ?thesis using tall_rpc_run process_ethereum_tall wrapped_rpc_run by blast
qed

end
